theory Spec2Isabelle
  imports Complex_Main
begin

section \<open>Sentinel-2 download and post-processing (UseGEE_Download_S2_Imgs.py)\<close>

text \<open>
  The script has two functions. \<open>Process_Downloaded_Imgs\<close> reads a downloaded GeoTIFF,
  drops the outermost row and column on every side and writes the result back to the same
  path with the affine parameters it was given. \<open>Sentinel2_TOA_Download\<close> walks the scenes
  of an Earth Engine collection, computes a coverage ratio for each, and downloads the scenes
  whose ratio reaches a threshold.

  Python floats are modelled as rationals: the script only copies, negates and compares the
  floats it holds, and these operations are exact on finite floats. The libraries the script
  calls (\<open>ee\<close>, \<open>geemap\<close>, \<open>rasterio\<close>, \<open>datetime\<close>) are not part of the repository; their
  behaviour is a parameter of the model (the record \<open>env\<close> below).
\<close>

subsection \<open>Python sequences: slicing and \<open>str.replace\<close>\<close>

text \<open>
  \<open>xs[start:stop]\<close> with step 1. A negative bound counts from the end and every bound is
  clamped to \<open>0..len(xs)\<close>; an empty range gives the empty sequence, never an error.
\<close>

definition slice_bound :: "int \<Rightarrow> nat \<Rightarrow> nat" where
  "slice_bound i n = (if i < 0 then nat (max (i + int n) 0) else min (nat i) n)"

definition slice_len :: "int \<Rightarrow> int \<Rightarrow> nat \<Rightarrow> nat" where
  "slice_len start stop n = slice_bound stop n - slice_bound start n"

definition py_slice :: "int \<Rightarrow> int \<Rightarrow> 'a list \<Rightarrow> 'a list" where
  "py_slice start stop xs =
     take (slice_len start stop (length xs)) (drop (slice_bound start (length xs)) xs)"

text \<open>
  \<open>s.replace(old, new)\<close> for a non-empty \<open>old\<close>: occurrences are replaced from left to
  right, without overlap.
\<close>

function py_replace :: "string \<Rightarrow> string \<Rightarrow> string \<Rightarrow> string" where
  "py_replace old new [] = []"
| "py_replace old new (c # cs) =
     (if old \<noteq> [] \<and> take (length old) (c # cs) = old
      then new @ py_replace old new (drop (length old) (c # cs))
      else c # py_replace old new cs)"
  by pat_completeness auto
termination
  by (relation "measure (\<lambda>(old, new, s). length s)") (auto simp: neq_Nil_conv)

subsection \<open>Rasters\<close>

text \<open>
  A numpy array of shape \<open>(bands, rows, cols)\<close>, as \<open>src.read()\<close> returns it. The shape is
  kept beside the pixels, as numpy does: an array with no rows still has a width.
\<close>

record ndarray =
  shape :: "nat \<times> nat \<times> nat"
  dtype :: string
  px :: "rat list list list"

definition wf_ndarray :: "ndarray \<Rightarrow> bool" where
  "wf_ndarray a =
     (case shape a of (b, h, w) \<Rightarrow>
        length (px a) = b \<and>
        (\<forall>plane \<in> set (px a). length plane = h \<and> (\<forall>row \<in> set plane. length row = w)))"

text \<open>\<open>download_data[:, 1:-1, 1:-1]\<close> (line 22).\<close>

definition crop_border :: "ndarray \<Rightarrow> ndarray" where
  "crop_border a =
     (case shape a of (b, h, w) \<Rightarrow>
        a\<lparr>shape := (b, slice_len 1 (- 1) h, slice_len 1 (- 1) w),
          px := map (\<lambda>plane. map (py_slice 1 (- 1)) (py_slice 1 (- 1) plane)) (px a)\<rparr>)"

text \<open>
  The affine parameters travel as the 6-tuple
  \<open>(x_scale, x_shear, x_translate, y_shear, y_scale, y_translate)\<close>;
  \<open>rasterio.transform.Affine(*crsTransform)\<close> makes the matrix with coefficients
  \<open>a b c / d e f\<close> (here \<open>af_a\<close> to \<open>af_f\<close>) out of it, and \<open>affine_apply\<close> is its product with a pixel \<open>(col, row)\<close>.
\<close>

type_synonym crsTransform = "rat \<times> rat \<times> rat \<times> rat \<times> rat \<times> rat"

record affine =
  af_a :: rat
  af_b :: rat
  af_c :: rat
  af_d :: rat
  af_e :: rat
  af_f :: rat

definition Affine :: "crsTransform \<Rightarrow> affine" where
  "Affine t = (case t of (sx, shx, ox, shy, sy, oy) \<Rightarrow>
     \<lparr>af_a = sx, af_b = shx, af_c = ox, af_d = shy, af_e = sy, af_f = oy\<rparr>)"

definition affine_apply :: "affine \<Rightarrow> rat \<times> rat \<Rightarrow> rat \<times> rat" where
  "affine_apply t p = (case p of (col, row) \<Rightarrow>
     (af_a t * col + af_b t * row + af_c t, af_d t * col + af_e t * row + af_f t))"

datatype crs = from_epsg nat

text \<open>The \<open>profile\<close> dictionary of lines 29 to 39.\<close>

record profile =
  driver :: string
  p_dtype :: string
  nodata :: "rat option"
  width :: nat
  height :: nat
  count :: nat
  p_crs :: crs
  transform :: affine
  compress :: string

subsection \<open>Errors\<close>

text \<open>
  The script defines no exception and has no \<open>raise\<close>, \<open>try\<close> or \<open>except\<close>: whatever a
  library raises leaves the running function at once. \<open>lib_exception\<close> are the failures of
  the libraries. \<open>BufferTooSmall\<close> is the error kind that the specification names for a
  raster under 3 by 3 pixels; it is part of the error type so that the model can say whether
  the script ever raises it.
\<close>

datatype lib_exception = EEException | DownloadError | RasterioIOError

datatype error = BufferTooSmall | Raised lib_exception

subsection \<open>The Earth Engine client objects\<close>

text \<open>
  An \<open>ee\<close> object is an expression that the client builds and the server evaluates when
  \<open>getInfo\<close> or a download asks for it. The datatypes below are the expressions that the
  script builds, one constructor for each method it calls.
\<close>

datatype ee_geometry = Rectangle rat rat rat rat

datatype ee_reducer = Reducer_count

datatype ee_collection =
    ImageCollection string
  | filterDate ee_collection string string
  | filterBounds ee_collection ee_geometry
  | Collection_select ee_collection "string list"
  | Collection_sort ee_collection string

datatype ee_image =
    Image ee_object
  | Image_constant int
  | Image_clip ee_image ee_geometry
  | Image_select ee_image string
  | Image_divide ee_image int
  | Image_reproject ee_image ee_crs rat
and ee_object =
    List_get ee_list nat
  | Dictionary_get ee_dictionary string
  | Image_get ee_image string
and ee_list = toList ee_collection ee_number
and ee_number =
    Collection_size ee_collection
  | Number ee_object
  | Number_divide ee_number ee_number
and ee_dictionary = reduceRegion ee_image ee_reducer ee_geometry rat rat
and ee_projection = Image_projection ee_image
and ee_crs = Projection_crs ee_projection


subsection \<open>The libraries and the state of a run\<close>

text \<open>The keyword arguments of \<open>geemap.download_ee_image\<close> (lines 142 to 149).\<close>

record download_request =
  image :: ee_image
  filename :: string
  region :: ee_geometry
  req_crs :: string
  crs_transform :: crsTransform
  resampling :: string

text \<open>
  What the script prints: line 103 (number of scenes), line 123 (one-based scene number and
  coverage ratio) and line 129 (index, acquisition time as text, timestamp). The lines are
  kept as values, not as formatted text.
\<close>

datatype out_line =
    PrintTotal nat
  | PrintCoverage nat rat
  | PrintAccepted nat string int

text \<open>Every call that leaves the script, with its arguments.\<close>

datatype call =
    GetInfo_size ee_number
  | GetInfo_ratio ee_number
  | GetInfo_time ee_object
  | Download download_request
  | Rio_read string
  | Rio_write string profile ndarray

text \<open>
  The libraries. \<open>'w\<close> is whatever the calls act on (the files on disk). A \<open>getInfo\<close>
  answers with a value or raises; a download or a write returns the new world or raises,
  leaving some world behind. \<open>strftime_local\<close> stands for
  \<open>datetime.fromtimestamp(t).strftime('%Y-%m-%d %H:%M:%S')\<close>, which depends on the
  time zone of the machine, and \<open>format_2f\<close> for the format \<open>:.2f\<close>.
\<close>

record 'w env =
  getInfo_size :: "ee_number \<Rightarrow> lib_exception + nat"
  getInfo_ratio :: "ee_number \<Rightarrow> lib_exception + rat"
  getInfo_time :: "ee_object \<Rightarrow> lib_exception + int"
  strftime_local :: "rat \<Rightarrow> string"
  format_2f :: "rat \<Rightarrow> string"
  download_ee_image :: "download_request \<Rightarrow> 'w \<Rightarrow> (lib_exception \<times> 'w) + 'w"
  rio_read :: "string \<Rightarrow> 'w \<Rightarrow> lib_exception + ndarray"
  rio_write :: "string \<Rightarrow> profile \<Rightarrow> ndarray \<Rightarrow> 'w \<Rightarrow> (lib_exception \<times> 'w) + 'w"

text \<open>
  The state of a run: the world, the lines printed so far and the calls made so far. A
  function returns \<open>Inr\<close> with the state it leaves, or \<open>Inl\<close> with the exception that
  ended it and the state at that moment.
\<close>

record 'w state =
  world :: 'w
  stdout :: "out_line list"
  calls :: "call list"

type_synonym 'w outcome = "(error \<times> 'w state) + 'w state"

definition logged :: "call \<Rightarrow> 'w state \<Rightarrow> 'w state" where
  "logged k s = s\<lparr>calls := calls s @ [k]\<rparr>"

definition print :: "out_line \<Rightarrow> 'w state \<Rightarrow> 'w state" where
  "print l s = s\<lparr>stdout := stdout s @ [l]\<rparr>"

definition call_getInfo_size ::
  "'w env \<Rightarrow> ee_number \<Rightarrow> 'w state \<Rightarrow> (error \<times> 'w state) + (nat \<times> 'w state)" where
  "call_getInfo_size env n s =
     (case getInfo_size env n of
        Inl x \<Rightarrow> Inl (Raised x, logged (GetInfo_size n) s)
      | Inr v \<Rightarrow> Inr (v, logged (GetInfo_size n) s))"

definition call_getInfo_ratio ::
  "'w env \<Rightarrow> ee_number \<Rightarrow> 'w state \<Rightarrow> (error \<times> 'w state) + (rat \<times> 'w state)" where
  "call_getInfo_ratio env n s =
     (case getInfo_ratio env n of
        Inl x \<Rightarrow> Inl (Raised x, logged (GetInfo_ratio n) s)
      | Inr v \<Rightarrow> Inr (v, logged (GetInfo_ratio n) s))"

definition call_getInfo_time ::
  "'w env \<Rightarrow> ee_object \<Rightarrow> 'w state \<Rightarrow> (error \<times> 'w state) + (int \<times> 'w state)" where
  "call_getInfo_time env ob s =
     (case getInfo_time env ob of
        Inl x \<Rightarrow> Inl (Raised x, logged (GetInfo_time ob) s)
      | Inr v \<Rightarrow> Inr (v, logged (GetInfo_time ob) s))"

definition call_download :: "'w env \<Rightarrow> download_request \<Rightarrow> 'w state \<Rightarrow> 'w outcome" where
  "call_download env r s =
     (case download_ee_image env r (world s) of
        Inl (x, w') \<Rightarrow> Inl (Raised x, (logged (Download r) s)\<lparr>world := w'\<rparr>)
      | Inr w' \<Rightarrow> Inr ((logged (Download r) s)\<lparr>world := w'\<rparr>))"

definition call_rio_read ::
  "'w env \<Rightarrow> string \<Rightarrow> 'w state \<Rightarrow> (error \<times> 'w state) + (ndarray \<times> 'w state)" where
  "call_rio_read env path s =
     (case rio_read env path (world s) of
        Inl x \<Rightarrow> Inl (Raised x, logged (Rio_read path) s)
      | Inr v \<Rightarrow> Inr (v, logged (Rio_read path) s))"

definition call_rio_write ::
  "'w env \<Rightarrow> string \<Rightarrow> profile \<Rightarrow> ndarray \<Rightarrow> 'w state \<Rightarrow> 'w outcome" where
  "call_rio_write env path pr data s =
     (case rio_write env path pr data (world s) of
        Inl (x, w') \<Rightarrow> Inl (Raised x, (logged (Rio_write path pr data) s)\<lparr>world := w'\<rparr>)
      | Inr w' \<Rightarrow> Inr ((logged (Rio_write path pr data) s)\<lparr>world := w'\<rparr>))"

subsection \<open>\<open>Process_Downloaded_Imgs\<close> (lines 7 to 44)\<close>

definition make_profile :: "crsTransform \<Rightarrow> ndarray \<Rightarrow> profile" where
  "make_profile crsTransform download_data =
     (let trans = Affine crsTransform;
          prj = from_epsg 4326
      in case shape download_data of (bands, height', width') \<Rightarrow>
        \<lparr>driver = ''GTiff'',
         p_dtype = dtype download_data,
         nodata = None,
         width = width',
         height = height',
         count = fst (shape download_data),
         p_crs = prj,
         transform = trans,
         compress = ''lzw''\<rparr>)"

definition Process_Downloaded_Imgs :: "'w env \<Rightarrow> crsTransform \<Rightarrow> string \<Rightarrow> 'w state \<Rightarrow> 'w outcome" where
  "Process_Downloaded_Imgs env crsTransform download_path s =
     (case call_rio_read env download_path s of
        Inl x \<Rightarrow> Inl x
      | Inr (src, s1) \<Rightarrow>
          (let download_data = crop_border src
           in call_rio_write env (py_replace ''.tif'' ''.tif'' download_path)
                (make_profile crsTransform download_data) download_data s1))"

subsection \<open>\<open>Sentinel2_TOA_Download\<close> (lines 48 to 157)\<close>

text \<open>
  The parameters of the function. \<open>default_args\<close> gives the four last ones the defaults of
  the signature (lines 55 to 58); the decimal literals are read as exact fractions.
\<close>

record args =
  lon_min :: rat
  lon_max :: rat
  lat_min :: rat
  lat_max :: rat
  start_date_str :: string
  end_date_str :: string
  download_folderpath :: string
  bands :: "string list"
  coverage_ratio_threshold :: rat
  resample_resolution :: rat
  is_postprocess :: bool

definition default_args ::
  "rat \<Rightarrow> rat \<Rightarrow> rat \<Rightarrow> rat \<Rightarrow> string \<Rightarrow> string \<Rightarrow> string \<Rightarrow> args" where
  "default_args lo_min lo_max la_min la_max start end' folder =
     \<lparr>lon_min = lo_min, lon_max = lo_max, lat_min = la_min, lat_max = la_max,
      start_date_str = start, end_date_str = end', download_folderpath = folder,
      bands = [''B2'', ''B3'', ''B4'', ''B8''],
      coverage_ratio_threshold = 99 / 100,
      resample_resolution = 8983 / 100000000,
      is_postprocess = True\<rparr>"

text \<open>Lines 90 to 100: the rectangle, the filtered and sorted collection, its list.\<close>

definition rect_polygon :: "args \<Rightarrow> ee_geometry" where
  "rect_polygon ar = Rectangle (lon_min ar) (lat_min ar) (lon_max ar) (lat_max ar)"

definition sentinel2_toa_dataset :: "args \<Rightarrow> ee_collection" where
  "sentinel2_toa_dataset ar =
     Collection_sort
       (Collection_select
          (filterBounds
             (filterDate (ImageCollection ''COPERNICUS/S2_HARMONIZED'')
                (start_date_str ar) (end_date_str ar))
             (rect_polygon ar))
          (bands ar))
       ''system:time_start''"

definition imgs_list :: "args \<Rightarrow> ee_list" where
  "imgs_list ar = toList (sentinel2_toa_dataset ar) (Collection_size (sentinel2_toa_dataset ar))"

text \<open>Line 108.\<close>

definition selected_img :: "args \<Rightarrow> nat \<Rightarrow> ee_image" where
  "selected_img ar img_idx = Image_clip (Image (List_get (imgs_list ar) img_idx)) (rect_polygon ar)"

text \<open>Lines 109 to 121: the expression whose value is the coverage ratio.\<close>

definition valid_pixels_num :: "args \<Rightarrow> nat \<Rightarrow> ee_number" where
  "valid_pixels_num ar img_idx =
     Number (Dictionary_get
       (reduceRegion (Image_select (selected_img ar img_idx) ''B2'') Reducer_count
          (rect_polygon ar) 10 (10 ^ 13))
       ''B2'')"

definition total_pixels_num :: "args \<Rightarrow> nat \<Rightarrow> ee_number" where
  "total_pixels_num ar img_idx =
     (let projection = Image_projection (Image_select (selected_img ar img_idx) ''B2'');
          fullone_image =
            Image_clip (Image_reproject (Image_constant 1) (Projection_crs projection) 10)
              (rect_polygon ar)
      in Number (Dictionary_get
           (reduceRegion fullone_image Reducer_count (rect_polygon ar) 10 (10 ^ 13))
           ''constant''))"

definition coverage_ratio :: "args \<Rightarrow> nat \<Rightarrow> ee_number" where
  "coverage_ratio ar img_idx =
     Number_divide (valid_pixels_num ar img_idx) (total_pixels_num ar img_idx)"

text \<open>Line 138.\<close>

definition crsTransform_of :: "args \<Rightarrow> crsTransform" where
  "crsTransform_of ar =
     (resample_resolution ar, 0, lon_min ar, 0, - resample_resolution ar, lat_max ar)"

text \<open>Line 141; the separator is a backslash.\<close>

definition download_path_of :: "'w env \<Rightarrow> args \<Rightarrow> string \<Rightarrow> string" where
  "download_path_of env ar date_time_str =
     download_folderpath ar @ [CHR 0x5C] @ ''Sentinel2'' @ ''_''
       @ (format_2f env (lon_min ar) @ ''E_'')
       @ (format_2f env (lat_max ar) @ ''N_'')
       @ py_replace '':'' ''-'' (py_replace '' '' ''_'' date_time_str)
       @ ''.tif''"

text \<open>
  Lines 132 to 149: the scene divided by 10000 (line 132) and the keyword arguments of
  \<open>geemap.download_ee_image\<close>.
\<close>

definition scene_request :: "'w env \<Rightarrow> args \<Rightarrow> nat \<Rightarrow> string \<Rightarrow> download_request" where
  "scene_request env ar img_idx date_time_str =
     \<lparr>image = Image_divide (selected_img ar img_idx) 10000,
      filename = download_path_of env ar date_time_str,
      region = rect_polygon ar,
      req_crs = ''EPSG:4326'',
      crs_transform = crsTransform_of ar,
      resampling = ''bilinear''\<rparr>"

text \<open>Lines 127 to 153: the branch taken when the ratio reaches the threshold.\<close>

definition download_scene :: "'w env \<Rightarrow> args \<Rightarrow> nat \<Rightarrow> 'w state \<Rightarrow> 'w outcome" where
  "download_scene env ar img_idx s =
     (case call_getInfo_time env (Image_get (selected_img ar img_idx) ''system:time_start'') s of
        Inl x \<Rightarrow> Inl x
      | Inr (timestamp, s1) \<Rightarrow>
          (let date_time_str = strftime_local env (of_int timestamp / 1000);
               s2 = print (PrintAccepted img_idx date_time_str timestamp) s1;
               crsTransform = crsTransform_of ar;
               download_path = download_path_of env ar date_time_str
           in case call_download env (scene_request env ar img_idx date_time_str) s2 of
                Inl x \<Rightarrow> Inl x
              | Inr s3 \<Rightarrow>
                  if is_postprocess ar
                  then Process_Downloaded_Imgs env crsTransform download_path s3
                  else Inr s3))"

text \<open>Lines 107 to 157: the body of the loop for one index.\<close>

definition candidate_step :: "'w env \<Rightarrow> args \<Rightarrow> nat \<Rightarrow> 'w state \<Rightarrow> 'w outcome" where
  "candidate_step env ar img_idx s =
     (case call_getInfo_ratio env (coverage_ratio ar img_idx) s of
        Inl x \<Rightarrow> Inl x
      | Inr (ratio, s1) \<Rightarrow>
          (let s2 = print (PrintCoverage (img_idx + 1) ratio) s1
           in if ratio \<ge> coverage_ratio_threshold ar
              then download_scene env ar img_idx s2
              else Inr s2))"

text \<open>Line 106: \<open>for img_idx in range(imgs_num)\<close>; an exception ends the loop.\<close>

fun run_candidates :: "'w env \<Rightarrow> args \<Rightarrow> nat list \<Rightarrow> 'w state \<Rightarrow> 'w outcome" where
  "run_candidates env ar [] s = Inr s"
| "run_candidates env ar (img_idx # rest) s =
     (case candidate_step env ar img_idx s of
        Inl x \<Rightarrow> Inl x
      | Inr s' \<Rightarrow> run_candidates env ar rest s')"

definition Sentinel2_TOA_Download :: "'w env \<Rightarrow> args \<Rightarrow> 'w \<Rightarrow> 'w outcome" where
  "Sentinel2_TOA_Download env ar w =
     (case call_getInfo_size env (Collection_size (sentinel2_toa_dataset ar))
             \<lparr>world = w, stdout = [], calls = []\<rparr> of
        Inl x \<Rightarrow> Inl x
      | Inr (imgs_num, s1) \<Rightarrow>
          run_candidates env ar [0..<imgs_num] (print (PrintTotal imgs_num) s1))"

text \<open>The state that a run leaves, whether it returned or raised.\<close>

definition final_state :: "'w outcome \<Rightarrow> 'w state" where
  "final_state r = (case r of Inl (x, s) \<Rightarrow> s | Inr s \<Rightarrow> s)"

subsection \<open>Reading the expressions\<close>

text \<open>
  The image that a pixel count is taken of, and the band that was selected on it: for
  \<open>ee.Number(img.select(band).reduceRegion(...).get(key))\<close> the band is \<open>band\<close>;
  \<open>reference_band\<close> of a quotient is the band of its numerator.
\<close>

fun counted_image :: "ee_number \<Rightarrow> ee_image option" where
  "counted_image (Number (Dictionary_get (reduceRegion im rd g sc mp) key)) = Some im"
| "counted_image n = None"

fun selected_band :: "ee_image \<Rightarrow> string option" where
  "selected_band (Image_select im band) = Some band"
| "selected_band im = None"

fun reference_band :: "ee_number \<Rightarrow> string option" where
  "reference_band (Number_divide valid whole) =
     (case counted_image valid of None \<Rightarrow> None | Some im \<Rightarrow> selected_band im)"
| "reference_band n = None"

text \<open>The reference bands of the coverage ratios that a run asked the server for.\<close>

fun reference_bands :: "call list \<Rightarrow> string option list" where
  "reference_bands [] = []"
| "reference_bands (GetInfo_ratio n # ks) = reference_band n # reference_bands ks"
| "reference_bands (k # ks) = reference_bands ks"

text \<open>
  The calls to \<open>rasterio\<close>, the coverage ratios and the timestamps asked for, and the
  download requests among the calls of a run.
\<close>

fun is_rio_call :: "call \<Rightarrow> bool" where
  "is_rio_call (Rio_read path) = True"
| "is_rio_call (Rio_write path pr data) = True"
| "is_rio_call k = False"


fun ratio_requests :: "call list \<Rightarrow> ee_number list" where
  "ratio_requests [] = []"
| "ratio_requests (GetInfo_ratio n # ks) = n # ratio_requests ks"
| "ratio_requests (k # ks) = ratio_requests ks"


fun downloads :: "call list \<Rightarrow> download_request list" where
  "downloads [] = []"
| "downloads (Download r # ks) = r # downloads ks"
| "downloads (k # ks) = downloads ks"

text \<open>
  The position in the collection's list of the scene that an image expression is made from.
\<close>

fun image_index :: "ee_image \<Rightarrow> nat option" where
  "image_index (Image (List_get l i)) = Some i"
| "image_index (Image ob) = None"
| "image_index (Image_constant k) = None"
| "image_index (Image_clip im g) = image_index im"
| "image_index (Image_select im band) = image_index im"
| "image_index (Image_divide im k) = image_index im"
| "image_index (Image_reproject im cr sc) = image_index im"

subsection \<open>Test doubles for the libraries\<close>

text \<open>
  A disk in memory: a path holds a profile and an array. Reading a path that holds nothing
  raises. The writer refuses a raster with no column, no row or no band, as the GeoTIFF
  driver does, and otherwise replaces what the path holds.
\<close>

type_synonym disk = "string \<Rightarrow> (profile \<times> ndarray) option"

definition disk_read :: "string \<Rightarrow> disk \<Rightarrow> lib_exception + ndarray" where
  "disk_read path w = (case w path of None \<Rightarrow> Inl RasterioIOError | Some fl \<Rightarrow> Inr (snd fl))"

definition disk_write ::
  "string \<Rightarrow> profile \<Rightarrow> ndarray \<Rightarrow> disk \<Rightarrow> (lib_exception \<times> disk) + disk" where
  "disk_write path pr data w =
     (if width pr = 0 \<or> height pr = 0 \<or> count pr = 0 then Inl (RasterioIOError, w)
      else Inr (w(path \<mapsto> (pr, data))))"

text \<open>Decimal digits of a natural number, and the format \<open>:.2f\<close> (ties are rounded up).\<close>

fun digits :: "nat \<Rightarrow> string" where
  "digits n =
     (if n < 10 then [''0123456789'' ! n] else digits (n div 10) @ [''0123456789'' ! (n mod 10)])"

declare digits.simps [simp del]

definition two_decimals :: "rat \<Rightarrow> string" where
  "two_decimals x =
     (let n = nat (round (\<bar>x\<bar> * 100))
      in (if x < 0 \<and> 0 < n then ''-'' else []) @ digits (n div 100) @ ''.''
         @ digits (n mod 100 div 10) @ digits (n mod 10))"

text \<open>
  A server with a fixed list of scenes: \<open>ratios\<close> are the answers for the coverage ratio of
  each scene and \<open>stamps\<close> the answers for its acquisition timestamp (a value or an
  exception), and \<open>dn\<close> is the raster that the export of any scene delivers. A download
  stores that raster on the disk under the requested file name, with the requested
  transform. The clock prints the whole seconds of a time within the first ten seconds of
  1970, in UTC.
\<close>

definition scene_answer :: "'x list \<Rightarrow> nat option \<Rightarrow> lib_exception + 'x" where
  "scene_answer xs i =
     (case i of None \<Rightarrow> Inl EEException
      | Some j \<Rightarrow> if j < length xs then Inr (xs ! j) else Inl EEException)"

text \<open>
  The bands that an image expression has, when the expression says so (\<open>None\<close>: the bands
  of the data set). The server refuses to count a band that the image does not have.
\<close>

fun collection_bands :: "ee_collection \<Rightarrow> string list option" where
  "collection_bands (ImageCollection name) = None"
| "collection_bands (filterDate cl start end') = collection_bands cl"
| "collection_bands (filterBounds cl g) = collection_bands cl"
| "collection_bands (Collection_select cl bs) = Some bs"
| "collection_bands (Collection_sort cl key) = collection_bands cl"

fun image_bands :: "ee_image \<Rightarrow> string list option" where
  "image_bands (Image (List_get (toList cl n) i)) = collection_bands cl"
| "image_bands (Image ob) = None"
| "image_bands (Image_constant k) = Some [''constant'']"
| "image_bands (Image_clip im g) = image_bands im"
| "image_bands (Image_select im band) = Some [band]"
| "image_bands (Image_divide im k) = image_bands im"
| "image_bands (Image_reproject im cr sc) = image_bands im"

definition has_band :: "ee_image \<Rightarrow> string \<Rightarrow> bool" where
  "has_band im band = (case image_bands im of None \<Rightarrow> True | Some bs \<Rightarrow> band \<in> set bs)"

fun counted_scene :: "ee_number \<Rightarrow> nat option" where
  "counted_scene (Number_divide valid whole) =
     (case counted_image valid of
        Some (Image_select im band) \<Rightarrow> if has_band im band then image_index im else None
      | _ \<Rightarrow> None)"
| "counted_scene n = None"

definition ratio_answer :: "(lib_exception + rat) list \<Rightarrow> ee_number \<Rightarrow> lib_exception + rat" where
  "ratio_answer ratios n =
     (case scene_answer ratios (counted_scene n) of
        Inl x \<Rightarrow> Inl x
      | Inr r \<Rightarrow> r)"

definition time_answer :: "(lib_exception + int) list \<Rightarrow> ee_object \<Rightarrow> lib_exception + int" where
  "time_answer stamps ob =
     (case scene_answer stamps (case ob of Image_get im key \<Rightarrow> image_index im | _ \<Rightarrow> None) of
        Inl x \<Rightarrow> Inl x
      | Inr t \<Rightarrow> t)"

definition test_download ::
  "ndarray \<Rightarrow> download_request \<Rightarrow> disk \<Rightarrow> (lib_exception \<times> disk) + disk" where
  "test_download dn r w =
     (case image_index (image r) of
        None \<Rightarrow> Inl (DownloadError, w)
      | Some i \<Rightarrow> Inr (w(filename r \<mapsto> (make_profile (crs_transform r) dn, dn))))"

definition test_env ::
  "(lib_exception + rat) list \<Rightarrow> (lib_exception + int) list \<Rightarrow> ndarray \<Rightarrow> disk env" where
  "test_env ratios stamps dn =
     \<lparr>getInfo_size = (\<lambda>n. Inr (length ratios)),
      getInfo_ratio = ratio_answer ratios,
      getInfo_time = time_answer stamps,
      strftime_local = (\<lambda>t. ''1970-01-01 00:00:0'' @ digits (nat \<lfloor>t\<rfloor> mod 10)),
      format_2f = two_decimals,
      download_ee_image = test_download dn,
      rio_read = disk_read,
      rio_write = disk_write\<rparr>"

text \<open>
  Inputs for running the model: a rectangle with corners (1, 3) and (2, 4), a resolution of
  one half, and a raster of one band and 3 by 3 pixels.
\<close>

definition demo_args :: args where
  "demo_args =
     (default_args 1 2 3 4 ''2025-08-01'' ''2025-08-07'' ''out'')\<lparr>resample_resolution := 1 / 2\<rparr>"

definition demo_dn :: ndarray where
  "demo_dn =
     \<lparr>shape = (1, 3, 3), dtype = ''uint16'',
      px = [[[1000, 2000, 3000], [4000, 20000, 6000], [7000, 8000, 9000]]]\<rparr>"

text \<open>
  A server with three scenes of coverage 1/2, 99/100 and 1, taken one, two and three seconds
  into 1970.
\<close>

definition demo_env :: "disk env" where
  "demo_env =
     test_env [Inr (1 / 2), Inr (99 / 100), Inr 1] [Inr 1000, Inr 2000, Inr 3000] demo_dn"

text \<open>The same server, except that the request for the second scene's ratio fails.\<close>

definition demo_env_failing :: "disk env" where
  "demo_env_failing =
     test_env [Inr (1 / 2), Inl EEException, Inr 1] [Inr 1000, Inr 2000, Inr 3000] demo_dn"


text \<open>
  A disk that holds the 3 by 3 raster under \<open>a.tif\<close> and a 2 by 2 raster under \<open>s.tif\<close>,
  and a writer that stores whatever it is given.
\<close>

definition demo_small :: ndarray where
  "demo_small = \<lparr>shape = (1, 2, 2), dtype = ''float64'', px = [[[1, 2], [3, 4]]]\<rparr>"

definition demo_transform :: crsTransform where
  "demo_transform = (1 / 2, 0, 1, 0, - (1 / 2), 4)"

definition demo_disk :: disk where
  "demo_disk =
     [''a.tif'' \<mapsto> (make_profile demo_transform demo_dn, demo_dn),
      ''s.tif'' \<mapsto> (make_profile demo_transform demo_small, demo_small)]"

definition demo_state :: "disk state" where
  "demo_state = \<lparr>world = demo_disk, stdout = [], calls = []\<rparr>"

definition store_any ::
  "string \<Rightarrow> profile \<Rightarrow> ndarray \<Rightarrow> disk \<Rightarrow> (lib_exception \<times> disk) + disk" where
  "store_any path pr data w = Inr (w(path \<mapsto> (pr, data)))"


section \<open>Properties\<close>

subsection \<open>Slices and the crop\<close>

lemma slice_len_border: "slice_len 1 (- 1) n = n - 2"
  by (simp add: slice_len_def slice_bound_def) 

lemma length_py_slice_border: "length (py_slice 1 (- 1) xs) = length xs - 2"
  by (simp add: py_slice_def slice_len_border slice_bound_def)

lemma nth_py_slice_border:
  "i < length xs - 2 \<Longrightarrow> py_slice 1 (- 1) xs ! i = xs ! (i + 1)"
  by (simp add: py_slice_def slice_len_border slice_bound_def)

lemma set_py_slice: "set (py_slice i j xs) \<subseteq> set xs"
  unfolding py_slice_def by (meson set_take_subset set_drop_subset subset_trans)

lemma py_replace_same_aux: "new = old \<Longrightarrow> py_replace old new s = s"
proof (induction old new s rule: py_replace.induct)
  case (1 old new)
  then show ?case by simp
next
  case (2 old new c cs)
  show ?case
  proof (cases "old \<noteq> [] \<and> take (length old) (c # cs) = old")
    case True
    then have "py_replace old new (c # cs) = old @ drop (length old) (c # cs)"
      using 2 by simp
    also have "\<dots> = take (length old) (c # cs) @ drop (length old) (c # cs)"
      using True by simp
    finally show ?thesis by (simp only: append_take_drop_id)
  next
    case False
    then show ?thesis using 2 by auto
  qed
qed

lemma py_replace_same: "py_replace old old s = s"
  by (rule py_replace_same_aux) simp

lemma shape_crop_border:
  "shape a = (b, h, w) \<Longrightarrow> shape (crop_border a) = (b, h - 2, w - 2)"
  by (simp add: crop_border_def slice_len_border)

lemma dtype_crop_border: "dtype (crop_border a) = dtype a"
  by (simp add: crop_border_def split: prod.splits)

lemma px_crop_border:
  "px (crop_border a) = map (\<lambda>plane. map (py_slice 1 (- 1)) (py_slice 1 (- 1) plane)) (px a)"
  by (simp add: crop_border_def split: prod.splits)

lemma wf_crop_border:
  assumes "wf_ndarray a"
  shows "wf_ndarray (crop_border a)"
proof -
  obtain b h w where sh: "shape a = (b, h, w)"
    by (metis prod_cases3)
  from assms sh have len: "length (px a) = b"
    and planes: "\<And>plane. plane \<in> set (px a) \<Longrightarrow> length plane = h"
    and rows: "\<And>plane row. plane \<in> set (px a) \<Longrightarrow> row \<in> set plane \<Longrightarrow> length row = w"
    by (auto simp: wf_ndarray_def)
  have "length (px (crop_border a)) = b"
    using len by (simp add: px_crop_border)
  moreover have "length plane' = h - 2 \<and> (\<forall>row' \<in> set plane'. length row' = w - 2)"
    if "plane' \<in> set (px (crop_border a))" for plane'
  proof -
    from that obtain plane where p: "plane \<in> set (px a)"
      and eq: "plane' = map (py_slice 1 (- 1)) (py_slice 1 (- 1) plane)"
      by (auto simp: px_crop_border)
    have "length plane' = h - 2"
      using planes [OF p] by (simp add: eq length_py_slice_border)
    moreover have "length row' = w - 2" if "row' \<in> set plane'" for row'
    proof -
      from that eq obtain row where r: "row \<in> set (py_slice 1 (- 1) plane)"
        and req: "row' = py_slice 1 (- 1) row"
        by auto
      from r have "row \<in> set plane"
        by (rule subsetD [OF set_py_slice])
      then show ?thesis
        using rows [OF p] by (simp add: req length_py_slice_border)
    qed
    ultimately show ?thesis by blast
  qed
  ultimately show ?thesis
    by (simp add: wf_ndarray_def shape_crop_border [OF sh])
qed

lemma nth_crop_border:
  assumes wf: "wf_ndarray a" and sh: "shape a = (b, h, w)"
    and k: "k < b" and i: "i < h - 2" and j: "j < w - 2"
  shows "px (crop_border a) ! k ! i ! j = px a ! k ! (i + 1) ! (j + 1)"
proof -
  from wf sh have len: "length (px a) = b"
    and planes: "\<And>plane. plane \<in> set (px a) \<Longrightarrow> length plane = h"
    and rows: "\<And>plane row. plane \<in> set (px a) \<Longrightarrow> row \<in> set plane \<Longrightarrow> length row = w"
    by (auto simp: wf_ndarray_def)
  let ?plane = "px a ! k"
  have pin: "?plane \<in> set (px a)"
    using k len by simp
  have plen: "length ?plane = h"
    by (rule planes [OF pin])
  let ?row = "?plane ! (i + 1)"
  have rin: "?row \<in> set ?plane"
    using i plen by simp
  have rlen: "length ?row = w"
    by (rule rows [OF pin rin])
  have "px (crop_border a) ! k = map (py_slice 1 (- 1)) (py_slice 1 (- 1) ?plane)"
    using k len by (simp add: px_crop_border)
  moreover have "map (py_slice 1 (- 1)) (py_slice 1 (- 1) ?plane) ! i = py_slice 1 (- 1) ?row"
    using i plen by (simp add: length_py_slice_border nth_py_slice_border)
  moreover have "py_slice 1 (- 1) ?row ! j = ?row ! (j + 1)"
    using j rlen by (simp add: nth_py_slice_border)
  ultimately show ?thesis by simp
qed

lemma Process_Downloaded_Imgs_read_ok:
  assumes "rio_read env download_path (world s) = Inr src"
  shows "Process_Downloaded_Imgs env crsTransform download_path s =
         call_rio_write env download_path
           (make_profile crsTransform (crop_border src)) (crop_border src)
           (logged (Rio_read download_path) s)"
  using assms
  by (simp add: Process_Downloaded_Imgs_def call_rio_read_def py_replace_same Let_def)

lemma Process_Downloaded_Imgs_read_fails:
  assumes "rio_read env download_path (world s) = Inl x"
  shows "Process_Downloaded_Imgs env crsTransform download_path s =
         Inl (Raised x, logged (Rio_read download_path) s)"
  using assms
  by (simp add: Process_Downloaded_Imgs_def call_rio_read_def logged_def)

lemma make_profile_fields:
  assumes "shape data = (b, h, w)"
  shows "count (make_profile t data) = b" and "height (make_profile t data) = h"
    and "width (make_profile t data) = w" and "transform (make_profile t data) = Affine t"
  using assms by (simp_all add: make_profile_def)

subsection \<open>The calls of a run\<close>

lemma downloads_append: "downloads (xs @ ys) = downloads xs @ downloads ys"
  by (induction xs rule: downloads.induct) simp_all

lemma reference_bands_append:
  "reference_bands (xs @ ys) = reference_bands xs @ reference_bands ys"
  by (induction xs rule: reference_bands.induct) simp_all

lemma calls_logged: "calls (logged k s) = calls s @ [k]"
  by (simp add: logged_def)

lemma calls_print: "calls (print l s) = calls s"
  by (simp add: print_def)

lemma final_state_simps:
  "final_state (Inl (x, s)) = s" "final_state (Inr s) = s"
  by (simp_all add: final_state_def)

lemma calls_call_rio_write:
  "calls (final_state (call_rio_write env path pr data s)) = calls s @ [Rio_write path pr data]"
  by (simp add: call_rio_write_def final_state_def logged_def split: sum.splits prod.splits)

lemma calls_call_download:
  "calls (final_state (call_download env r s)) = calls s @ [Download r]"
  by (simp add: call_download_def final_state_def logged_def split: sum.splits prod.splits)

lemma calls_Process_Downloaded_Imgs:
  "\<exists>cs. calls (final_state (Process_Downloaded_Imgs env t path s)) = calls s @ cs
        \<and> downloads cs = [] \<and> reference_bands cs = []"
proof (cases "rio_read env path (world s)")
  case (Inl x)
  then show ?thesis
    by (simp add: Process_Downloaded_Imgs_read_fails final_state_simps calls_logged)
next
  case (Inr src)
  then show ?thesis
    by (simp add: Process_Downloaded_Imgs_read_ok calls_call_rio_write calls_logged)
qed

lemma candidate_step_cases:
  obtains (ratio_fails) x where "getInfo_ratio env (coverage_ratio ar i) = Inl x"
      and "candidate_step env ar i s = Inl (Raised x, logged (GetInfo_ratio (coverage_ratio ar i)) s)"
  | (rejected) ratio where "getInfo_ratio env (coverage_ratio ar i) = Inr ratio"
      and "\<not> coverage_ratio_threshold ar \<le> ratio"
      and "candidate_step env ar i s =
             Inr (print (PrintCoverage (i + 1) ratio) (logged (GetInfo_ratio (coverage_ratio ar i)) s))"
  | (accepted) ratio where "getInfo_ratio env (coverage_ratio ar i) = Inr ratio"
      and "coverage_ratio_threshold ar \<le> ratio"
      and "candidate_step env ar i s =
             download_scene env ar i
               (print (PrintCoverage (i + 1) ratio) (logged (GetInfo_ratio (coverage_ratio ar i)) s))"
proof (cases "getInfo_ratio env (coverage_ratio ar i)")
  case (Inl x)
  then show ?thesis
    by (intro ratio_fails [of x]) (simp_all add: candidate_step_def call_getInfo_ratio_def)
next
  case (Inr ratio)
  show ?thesis
  proof (cases "coverage_ratio_threshold ar \<le> ratio")
    case True
    with Inr show ?thesis
      by (intro accepted [of ratio]) (simp_all add: candidate_step_def call_getInfo_ratio_def Let_def)
  next
    case False
    with Inr show ?thesis
      by (intro rejected [of ratio]) (simp_all add: candidate_step_def call_getInfo_ratio_def Let_def)
  qed
qed

lemma download_scene_cases:
  obtains (time_fails) x where "getInfo_time env (Image_get (selected_img ar i) ''system:time_start'') = Inl x"
      and "download_scene env ar i s =
             Inl (Raised x, logged (GetInfo_time (Image_get (selected_img ar i) ''system:time_start'')) s)"
  | (time_ok) ts d s2 where "getInfo_time env (Image_get (selected_img ar i) ''system:time_start'') = Inr ts"
      and "d = strftime_local env (of_int ts / 1000)"
      and "s2 = print (PrintAccepted i d ts)
                  (logged (GetInfo_time (Image_get (selected_img ar i) ''system:time_start'')) s)"
      and "download_scene env ar i s =
             (case call_download env (scene_request env ar i d) s2 of
                Inl x \<Rightarrow> Inl x
              | Inr s3 \<Rightarrow>
                  if is_postprocess ar
                  then Process_Downloaded_Imgs env (crsTransform_of ar) (download_path_of env ar d) s3
                  else Inr s3)"
proof (cases "getInfo_time env (Image_get (selected_img ar i) ''system:time_start'')")
  case (Inl x)
  then show ?thesis
    by (intro time_fails [of x]) (simp_all add: download_scene_def call_getInfo_time_def)
next
  case (Inr ts)
  then show ?thesis
    by (intro time_ok [of ts, OF _ refl refl]) (simp_all add: download_scene_def call_getInfo_time_def Let_def)
qed

lemma reference_band_coverage_ratio: "reference_band (coverage_ratio ar i) = Some ''B2''"
  by (simp add: coverage_ratio_def valid_pixels_num_def)

lemma calls_download_scene:
  "\<exists>cs. calls (final_state (download_scene env ar i s)) = calls s @ cs
        \<and> (downloads cs = [] \<or> (\<exists>d. downloads cs = [scene_request env ar i d]))
        \<and> reference_bands cs = []
        \<and> (\<not> is_postprocess ar \<longrightarrow> filter is_rio_call cs = [])"
proof (cases rule: download_scene_cases [of env ar i s])
  case (time_fails x)
  then show ?thesis
    by (simp add: final_state_simps calls_logged)
next
  case (time_ok ts d s2)
  let ?r = "scene_request env ar i d"
  let ?k = "GetInfo_time (Image_get (selected_img ar i) ''system:time_start'')"
  have c2: "calls s2 = calls s @ [?k]"
    by (simp add: time_ok(3) calls_print calls_logged)
  have cd: "calls (final_state (call_download env ?r s2)) = calls s @ [?k, Download ?r]"
    by (simp add: calls_call_download c2)
  show ?thesis
  proof (cases "call_download env ?r s2")
    case (Inl x)
    then have "download_scene env ar i s = call_download env ?r s2"
      by (simp add: time_ok(4))
    then have "calls (final_state (download_scene env ar i s)) = calls s @ [?k, Download ?r]"
      by (simp add: cd)
    moreover have "downloads [?k, Download ?r] = [?r]" "reference_bands [?k, Download ?r] = []"
      "filter is_rio_call [?k, Download ?r] = []"
      by simp_all
    ultimately show ?thesis
      by blast
  next
    case (Inr s3)
    with cd have c3: "calls s3 = calls s @ [?k, Download ?r]"
      by (simp add: final_state_simps)
    show ?thesis
    proof (cases "is_postprocess ar")
      case False
      with Inr have "download_scene env ar i s = Inr s3"
        by (simp add: time_ok(4))
      then have "calls (final_state (download_scene env ar i s)) = calls s @ [?k, Download ?r]"
        by (simp add: final_state_simps c3)
      moreover have "downloads [?k, Download ?r] = [?r]" "reference_bands [?k, Download ?r] = []"
        "filter is_rio_call [?k, Download ?r] = []"
        by simp_all
      ultimately show ?thesis
        by blast
    next
      case True
      with Inr have eq: "download_scene env ar i s =
          Process_Downloaded_Imgs env (crsTransform_of ar) (download_path_of env ar d) s3"
        by (simp add: time_ok(4))
      obtain cs where cs: "calls (final_state (Process_Downloaded_Imgs env (crsTransform_of ar)
            (download_path_of env ar d) s3)) = calls s3 @ cs"
          "downloads cs = []" "reference_bands cs = []"
        using calls_Process_Downloaded_Imgs by blast
      have "calls (final_state (download_scene env ar i s)) = calls s @ ([?k, Download ?r] @ cs)"
        by (simp add: eq cs(1) c3)
      moreover have "downloads ([?k, Download ?r] @ cs) = [?r]"
        by (simp add: cs(2))
      moreover have "reference_bands ([?k, Download ?r] @ cs) = []"
        by (simp add: cs(3))
      ultimately show ?thesis
        using True by blast
    qed
  qed
qed

lemma calls_candidate_step:
  "\<exists>cs. calls (final_state (candidate_step env ar i s)) = calls s @ cs
        \<and> (downloads cs = [] \<or> (\<exists>d. downloads cs = [scene_request env ar i d]))
        \<and> reference_bands cs = [Some ''B2'']
        \<and> (\<not> is_postprocess ar \<longrightarrow> filter is_rio_call cs = [])"
proof (cases rule: candidate_step_cases [of env ar i s])
  case (ratio_fails x)
  then show ?thesis
    by (simp add: final_state_simps calls_logged reference_band_coverage_ratio)
next
  case (rejected ratio)
  then show ?thesis
    by (simp add: final_state_simps calls_logged calls_print reference_band_coverage_ratio)
next
  case (accepted ratio)
  let ?k = "GetInfo_ratio (coverage_ratio ar i)"
  let ?s2 = "print (PrintCoverage (i + 1) ratio) (logged ?k s)"
  obtain cs where cs: "calls (final_state (download_scene env ar i ?s2)) = calls ?s2 @ cs"
      "downloads cs = [] \<or> (\<exists>d. downloads cs = [scene_request env ar i d])"
      "reference_bands cs = []" "\<not> is_postprocess ar \<longrightarrow> filter is_rio_call cs = []"
    using calls_download_scene by blast
  have "calls (final_state (candidate_step env ar i s)) = calls s @ (?k # cs)"
    unfolding accepted(3) cs(1) by (simp add: calls_print calls_logged)
  moreover have "downloads (?k # cs) = downloads cs"
    by simp
  moreover have "reference_bands (?k # cs) = [Some ''B2'']"
    by (simp add: cs(3) reference_band_coverage_ratio)
  moreover have "\<not> is_postprocess ar \<longrightarrow> filter is_rio_call (?k # cs) = []"
    using cs(4) by simp
  ultimately show ?thesis
    using cs(2) by metis
qed

lemma final_state_run_candidates_Cons:
  "final_state (run_candidates env ar (i # rest) s) =
     (case candidate_step env ar i s of
        Inl x \<Rightarrow> final_state (candidate_step env ar i s)
      | Inr s' \<Rightarrow> final_state (run_candidates env ar rest s'))"
  by (simp split: sum.splits)

lemma calls_run_candidates:
  "\<exists>cs. calls (final_state (run_candidates env ar idxs s)) = calls s @ cs
        \<and> (\<forall>r \<in> set (downloads cs). \<exists>i d. i \<in> set idxs \<and> r = scene_request env ar i d)
        \<and> set (reference_bands cs) \<subseteq> {Some ''B2''}
        \<and> (\<not> is_postprocess ar \<longrightarrow> filter is_rio_call cs = [])"
proof (induction idxs arbitrary: s)
  case Nil
  then show ?case by (simp add: final_state_simps)
next
  case (Cons i rest)
  obtain cs where cs: "calls (final_state (candidate_step env ar i s)) = calls s @ cs"
      "downloads cs = [] \<or> (\<exists>d. downloads cs = [scene_request env ar i d])"
      "reference_bands cs = [Some ''B2'']" "\<not> is_postprocess ar \<longrightarrow> filter is_rio_call cs = []"
    using calls_candidate_step by blast
  have dl: "\<forall>r \<in> set (downloads cs). \<exists>j d. j \<in> set (i # rest) \<and> r = scene_request env ar j d"
    using cs(2) by (elim disjE exE) (simp, force)
  show ?case
  proof (cases "candidate_step env ar i s")
    case (Inl x)
    then have "final_state (run_candidates env ar (i # rest) s) = final_state (candidate_step env ar i s)"
      by simp
    then show ?thesis
      using cs dl by (metis empty_subsetI insert_subset list.set(1) list.set(2) list.simps(15) subset_refl)
  next
    case (Inr s')
    then have fs: "final_state (run_candidates env ar (i # rest) s) = final_state (run_candidates env ar rest s')"
      by simp
    from Inr cs(1) have c': "calls s' = calls s @ cs"
      by (simp add: final_state_simps)
    obtain cs' where cs': "calls (final_state (run_candidates env ar rest s')) = calls s' @ cs'"
        "\<forall>r \<in> set (downloads cs'). \<exists>j d. j \<in> set rest \<and> r = scene_request env ar j d"
        "set (reference_bands cs') \<subseteq> {Some ''B2''}"
        "\<not> is_postprocess ar \<longrightarrow> filter is_rio_call cs' = []"
      using Cons.IH by blast
    have "calls (final_state (run_candidates env ar (i # rest) s)) = calls s @ (cs @ cs')"
      unfolding fs cs'(1) c' by simp
    moreover have "\<forall>r \<in> set (downloads (cs @ cs')). \<exists>j d. j \<in> set (i # rest) \<and> r = scene_request env ar j d"
      using dl cs'(2) unfolding downloads_append set_append list.set by blast
    moreover have "set (reference_bands (cs @ cs')) \<subseteq> {Some ''B2''}"
      using cs(3) cs'(3) by (simp add: reference_bands_append)
    moreover have "\<not> is_postprocess ar \<longrightarrow> filter is_rio_call (cs @ cs') = []"
      using cs(4) cs'(4) by simp
    ultimately show ?thesis by blast
  qed
qed




subsection \<open>Facts about the demonstration inputs\<close>

lemma transform_make_profile: "transform (make_profile t data) = Affine t"
  by (simp add: make_profile_def split: prod.splits)

lemma call_rio_read_not_BufferTooSmall: "call_rio_read env path s \<noteq> Inl (BufferTooSmall, s')"
  by (simp add: call_rio_read_def split: sum.splits)

lemma call_rio_write_not_BufferTooSmall:
  "call_rio_write env path pr data s \<noteq> Inl (BufferTooSmall, s')"
  by (simp add: call_rio_write_def split: sum.splits prod.splits)

lemma wf_demo_dn: "wf_ndarray demo_dn"
  by (simp add: wf_ndarray_def demo_dn_def)

lemma read_demo: "rio_read demo_env ''a.tif'' (world demo_state) = Inr demo_dn"
  by (simp add: demo_env_def test_env_def demo_state_def demo_disk_def disk_read_def)

lemma read_small: "rio_read demo_env ''s.tif'' (world demo_state) = Inr demo_small"
  by (simp add: demo_env_def test_env_def demo_state_def demo_disk_def disk_read_def)

lemma crop_demo_dn: "crop_border demo_dn = \<lparr>shape = (1, 1, 1), dtype = ''uint16'', px = [[[20000]]]\<rparr>"
  by (simp add: crop_border_def demo_dn_def slice_len_def slice_bound_def py_slice_def)

lemma crop_demo_small: "crop_border demo_small = \<lparr>shape = (1, 0, 0), dtype = ''float64'', px = [[]]\<rparr>"
  by (simp add: crop_border_def demo_small_def slice_len_def slice_bound_def py_slice_def)

lemma Process_Downloaded_Imgs_not_BufferTooSmall:
  "Process_Downloaded_Imgs env t path s \<noteq> Inl (BufferTooSmall, s')"
proof (cases "rio_read env path (world s)")
  case (Inl x)
  then show ?thesis by (simp add: Process_Downloaded_Imgs_read_fails)
next
  case (Inr src)
  then show ?thesis
    by (simp add: Process_Downloaded_Imgs_read_ok call_rio_write_not_BufferTooSmall)
qed

subsection \<open>The calls of a whole run, and runs of the test doubles\<close>

lemma calls_Sentinel2_TOA_Download:
  "\<exists>cs. calls (final_state (Sentinel2_TOA_Download env ar w)) =
          GetInfo_size (Collection_size (sentinel2_toa_dataset ar)) # cs
        \<and> (\<forall>r \<in> set (downloads cs). \<exists>i d. r = scene_request env ar i d)
        \<and> set (reference_bands cs) \<subseteq> {Some ''B2''}
        \<and> (\<not> is_postprocess ar \<longrightarrow> filter is_rio_call cs = [])"
proof (cases "getInfo_size env (Collection_size (sentinel2_toa_dataset ar))")
  case (Inl x)
  then have "calls (final_state (Sentinel2_TOA_Download env ar w)) =
      [GetInfo_size (Collection_size (sentinel2_toa_dataset ar))]"
    by (simp add: Sentinel2_TOA_Download_def call_getInfo_size_def final_state_simps logged_def)
  then show ?thesis by simp
next
  case (Inr n)
  let ?s1 = "print (PrintTotal n)
      (logged (GetInfo_size (Collection_size (sentinel2_toa_dataset ar)))
         \<lparr>world = w, stdout = [], calls = []\<rparr>)"
  have eq: "Sentinel2_TOA_Download env ar w = run_candidates env ar [0..<n] ?s1"
    using Inr by (simp add: Sentinel2_TOA_Download_def call_getInfo_size_def)
  have c1: "calls ?s1 = [GetInfo_size (Collection_size (sentinel2_toa_dataset ar))]"
    by (simp add: calls_print calls_logged)
  obtain cs where cs: "calls (final_state (run_candidates env ar [0..<n] ?s1)) = calls ?s1 @ cs
      \<and> (\<forall>r \<in> set (downloads cs). \<exists>i d. i \<in> set [0..<n] \<and> r = scene_request env ar i d)
      \<and> set (reference_bands cs) \<subseteq> {Some ''B2''}
      \<and> (\<not> is_postprocess ar \<longrightarrow> filter is_rio_call cs = [])"
    using calls_run_candidates [of env ar "[0..<n]" ?s1] by (rule exE)
  from cs have c0: "calls (final_state (run_candidates env ar [0..<n] ?s1)) = calls ?s1 @ cs"
    by (rule conjunct1)
  from cs have c2: "\<forall>r \<in> set (downloads cs). \<exists>i d. i \<in> set [0..<n] \<and> r = scene_request env ar i d"
    by (rule conjunct2 [THEN conjunct1])
  from cs have c3: "set (reference_bands cs) \<subseteq> {Some ''B2''}"
    by (rule conjunct2 [THEN conjunct2, THEN conjunct1])
  from cs have c4: "\<not> is_postprocess ar \<longrightarrow> filter is_rio_call cs = []"
    by (rule conjunct2 [THEN conjunct2, THEN conjunct2])
  have a: "calls (final_state (Sentinel2_TOA_Download env ar w)) =
          GetInfo_size (Collection_size (sentinel2_toa_dataset ar)) # cs"
    unfolding eq c0 c1 by simp
  have b: "\<forall>r \<in> set (downloads cs). \<exists>i d. r = scene_request env ar i d"
  proof
    fix r assume "r \<in> set (downloads cs)"
    with c2 have "\<exists>i d. i \<in> set [0..<n] \<and> r = scene_request env ar i d"
      by (rule bspec)
    then obtain i d where "i \<in> set [0..<n] \<and> r = scene_request env ar i d"
      by (elim exE)
    then show "\<exists>i d. r = scene_request env ar i d"
      by (intro exI) (rule conjunct2)
  qed
  show ?thesis
  proof (intro exI conjI)
    show "calls (final_state (Sentinel2_TOA_Download env ar w)) =
          GetInfo_size (Collection_size (sentinel2_toa_dataset ar)) # cs"
      by (rule a)
    show "\<forall>r \<in> set (downloads cs). \<exists>i d. r = scene_request env ar i d"
      by (rule b)
    show "set (reference_bands cs) \<subseteq> {Some ''B2''}"
      by (rule c3)
    show "\<not> is_postprocess ar \<longrightarrow> filter is_rio_call cs = []"
      by (rule c4)
  qed
qed

lemma downloads_Sentinel2_TOA_Download:
  assumes "r \<in> set (downloads (calls (final_state (Sentinel2_TOA_Download env ar w))))"
  shows "\<exists>i d. r = scene_request env ar i d"
proof -
  obtain cs where cs: "calls (final_state (Sentinel2_TOA_Download env ar w)) =
          GetInfo_size (Collection_size (sentinel2_toa_dataset ar)) # cs
        \<and> (\<forall>r \<in> set (downloads cs). \<exists>i d. r = scene_request env ar i d)
        \<and> set (reference_bands cs) \<subseteq> {Some ''B2''}
        \<and> (\<not> is_postprocess ar \<longrightarrow> filter is_rio_call cs = [])"
    using calls_Sentinel2_TOA_Download [of env ar w] by (rule exE)
  from cs have c0: "calls (final_state (Sentinel2_TOA_Download env ar w)) =
          GetInfo_size (Collection_size (sentinel2_toa_dataset ar)) # cs"
    by (rule conjunct1)
  from cs have c2: "\<forall>r \<in> set (downloads cs). \<exists>i d. r = scene_request env ar i d"
    by (rule conjunct2 [THEN conjunct1])
  from assms have "r \<in> set (downloads cs)"
    unfolding c0 by simp
  with c2 show ?thesis by (rule bspec)
qed

lemma has_band_selected_img:
  "has_band (selected_img ar i) band \<longleftrightarrow> band \<in> set (bands ar)"
  by (simp add: has_band_def selected_img_def imgs_list_def sentinel2_toa_dataset_def)

lemma image_index_selected_img: "image_index (selected_img ar i) = Some i"
  by (simp add: selected_img_def)

lemma counted_scene_coverage_ratio:
  "counted_scene (coverage_ratio ar i) = (if ''B2'' \<in> set (bands ar) then Some i else None)"
  by (simp add: coverage_ratio_def valid_pixels_num_def has_band_selected_img
      image_index_selected_img)

lemma scene_request_fields:
  "image (scene_request env ar i d) = Image_divide (selected_img ar i) 10000"
  "filename (scene_request env ar i d) = download_path_of env ar d"
  "crs_transform (scene_request env ar i d) = crsTransform_of ar"
  by (simp_all add: scene_request_def)

lemma test_env_size: "getInfo_size (test_env ratios stamps dn) n = Inr (length ratios)"
  by (simp add: test_env_def)

lemma test_env_ratio:
  "getInfo_ratio (test_env ratios stamps dn) (coverage_ratio ar i) =
     (if ''B2'' \<in> set (bands ar) \<and> i < length ratios then ratios ! i else Inl EEException)"
  by (simp add: test_env_def ratio_answer_def counted_scene_coverage_ratio scene_answer_def
      split: sum.splits)

lemma test_env_time:
  "getInfo_time (test_env ratios stamps dn) (Image_get (selected_img ar i) ''system:time_start'') =
     (if i < length stamps then stamps ! i else Inl EEException)"
  by (simp add: test_env_def time_answer_def image_index_selected_img scene_answer_def
      split: sum.splits)

lemma test_env_strftime:
  "strftime_local (test_env ratios stamps dn) t =
     ''1970-01-01 00:00:0'' @ digits (nat \<lfloor>t\<rfloor> mod 10)"
  by (simp add: test_env_def)

lemma test_env_download:
  "download_ee_image (test_env ratios stamps dn) (scene_request env ar i d) w =
     Inr (w(download_path_of env ar d \<mapsto> (make_profile (crsTransform_of ar) dn, dn)))"
  by (simp add: test_env_def test_download_def scene_request_fields image_index_selected_img)

lemma test_env_rio:
  "rio_read (test_env ratios stamps dn) = disk_read"
  "rio_write (test_env ratios stamps dn) = disk_write"
  by (simp_all add: test_env_def)

lemma digits_small: "n < 10 \<Longrightarrow> digits n = [''0123456789'' ! n]"
  by (simp add: digits.simps)

lemma profile_crop_demo_dn:
  "width (make_profile t (crop_border demo_dn)) = 1"
  "height (make_profile t (crop_border demo_dn)) = 1"
  "count (make_profile t (crop_border demo_dn)) = 1"
  by (simp_all add: crop_demo_dn make_profile_def)

lemma demo_args_fields:
  "coverage_ratio_threshold demo_args = 99 / 100" "is_postprocess demo_args"
  "bands demo_args = [''B2'', ''B3'', ''B4'', ''B8'']"
  "resample_resolution demo_args = 1 / 2" "lon_min demo_args = 1" "lat_max demo_args = 4"
  by (simp_all add: demo_args_def default_args_def)

lemma upt3: "[0..<3] = [0, 1, 2]"
  by (simp add: upt_rec)

lemmas run_eval =
  Sentinel2_TOA_Download_def call_getInfo_size_def test_env_size upt3
  candidate_step_def call_getInfo_ratio_def test_env_ratio
  download_scene_def call_getInfo_time_def test_env_time Let_def
  call_download_def test_env_download test_env_strftime digits_small
  print_def logged_def final_state_def
  Process_Downloaded_Imgs_def call_rio_read_def call_rio_write_def test_env_rio
  disk_read_def disk_write_def py_replace_same profile_crop_demo_dn
  demo_args_fields

lemma demo_run_downloads:
  "downloads (calls (final_state (Sentinel2_TOA_Download demo_env demo_args Map.empty))) =
     [scene_request demo_env demo_args 1 ''1970-01-01 00:00:02'',
      scene_request demo_env demo_args 2 ''1970-01-01 00:00:03'']"
  unfolding demo_env_def by (simp add: run_eval numeral_2_eq_2)


lemma demo_run_reference_bands:
  "reference_bands (calls (final_state (Sentinel2_TOA_Download demo_env demo_args Map.empty))) =
     [Some ''B2'', Some ''B2'', Some ''B2'']"
  unfolding demo_env_def by (simp add: run_eval reference_band_coverage_ratio)

lemma demo_path:
  "download_path_of demo_env demo_args ''1970-01-01 00:00:03'' =
     ''out'' @ [CHR 0x5C] @ ''Sentinel2_1.00E_4.00N_1970-01-01_00-00-03.tif''"
  by (simp add: download_path_of_def demo_env_def test_env_def two_decimals_def demo_args_def
      default_args_def digits.simps)

lemma demo_paths_distinct:
  "download_path_of env ar ''1970-01-01 00:00:03'' \<noteq> download_path_of env ar ''1970-01-01 00:00:02''"
  by (simp add: download_path_of_def)

subsection \<open>Runs without post-processing, aborted runs and runs that return\<close>

lemma download_scene_without_postprocess:
  assumes "\<not> is_postprocess ar"
  shows "download_scene (env\<lparr>rio_read := rr, rio_write := rw\<rparr>) ar i s = download_scene env ar i s"
  using assms
  by (simp add: download_scene_def call_getInfo_time_def call_download_def scene_request_def
      download_path_of_def Let_def split: sum.splits prod.splits)

lemma candidate_step_without_postprocess:
  assumes "\<not> is_postprocess ar"
  shows "candidate_step (env\<lparr>rio_read := rr, rio_write := rw\<rparr>) ar i s = candidate_step env ar i s"
  by (simp add: candidate_step_def call_getInfo_ratio_def
      download_scene_without_postprocess [OF assms] Let_def split: sum.splits prod.splits)

lemma run_candidates_without_postprocess:
  assumes "\<not> is_postprocess ar"
  shows "run_candidates (env\<lparr>rio_read := rr, rio_write := rw\<rparr>) ar idxs s = run_candidates env ar idxs s"
  by (induction idxs arbitrary: s)
     (simp_all add: candidate_step_without_postprocess [OF assms] split: sum.splits)

lemma Sentinel2_TOA_Download_without_postprocess:
  assumes "\<not> is_postprocess ar"
  shows "Sentinel2_TOA_Download (env\<lparr>rio_read := rr, rio_write := rw\<rparr>) ar w =
         Sentinel2_TOA_Download env ar w"
  by (simp add: Sentinel2_TOA_Download_def call_getInfo_size_def
      run_candidates_without_postprocess [OF assms] split: sum.splits)

lemma rio_calls_Sentinel2_TOA_Download:
  assumes "\<not> is_postprocess ar"
  shows "filter is_rio_call (calls (final_state (Sentinel2_TOA_Download env ar w))) = []"
proof -
  obtain cs where cs: "calls (final_state (Sentinel2_TOA_Download env ar w)) =
          GetInfo_size (Collection_size (sentinel2_toa_dataset ar)) # cs
        \<and> (\<forall>r \<in> set (downloads cs). \<exists>i d. r = scene_request env ar i d)
        \<and> set (reference_bands cs) \<subseteq> {Some ''B2''}
        \<and> (\<not> is_postprocess ar \<longrightarrow> filter is_rio_call cs = [])"
    using calls_Sentinel2_TOA_Download [of env ar w] by (rule exE)
  with assms show ?thesis by simp
qed

lemma shape_crop_demo_dn: "shape (crop_border demo_dn) = (1, 1, 1)"
  by (simp add: crop_demo_dn)

lemma demo_run_no_postprocess_world:
  "world (final_state (Sentinel2_TOA_Download demo_env (demo_args\<lparr>is_postprocess := False\<rparr>) Map.empty))
     (download_path_of demo_env demo_args ''1970-01-01 00:00:03'')
   = Some (make_profile (crsTransform_of demo_args) demo_dn, demo_dn)"
  unfolding demo_env_def by (simp add: run_eval download_path_of_def crsTransform_of_def)

lemma ratio_requests_append:
  "ratio_requests (xs @ ys) = ratio_requests xs @ ratio_requests ys"
  by (induction xs rule: ratio_requests.induct) simp_all

lemma ratio_requests_Process_Downloaded_Imgs:
  "ratio_requests (calls (final_state (Process_Downloaded_Imgs env t path s))) =
     ratio_requests (calls s)"
proof (cases "rio_read env path (world s)")
  case (Inl x)
  then show ?thesis
    by (simp add: Process_Downloaded_Imgs_read_fails final_state_simps calls_logged
        ratio_requests_append)
next
  case (Inr src)
  then show ?thesis
    by (simp add: Process_Downloaded_Imgs_read_ok calls_call_rio_write calls_logged
        ratio_requests_append)
qed

lemma ratio_requests_download_scene:
  "ratio_requests (calls (final_state (download_scene env ar i s))) = ratio_requests (calls s)"
proof (cases rule: download_scene_cases [of env ar i s])
  case (time_fails x)
  then show ?thesis
    by (simp add: final_state_simps calls_logged ratio_requests_append)
next
  case (time_ok ts d s2)
  let ?r = "scene_request env ar i d"
  have c2: "ratio_requests (calls s2) = ratio_requests (calls s)"
    by (simp add: time_ok(3) calls_print calls_logged ratio_requests_append)
  have cd: "ratio_requests (calls (final_state (call_download env ?r s2))) = ratio_requests (calls s)"
    by (simp add: calls_call_download ratio_requests_append c2)
  show ?thesis
  proof (cases "call_download env ?r s2")
    case (Inl x)
    then have "download_scene env ar i s = call_download env ?r s2"
      by (simp add: time_ok(4))
    then show ?thesis by (simp add: cd)
  next
    case (Inr s3)
    with cd have c3: "ratio_requests (calls s3) = ratio_requests (calls s)"
      by (simp add: final_state_simps)
    show ?thesis
    proof (cases "is_postprocess ar")
      case False
      with Inr have "download_scene env ar i s = Inr s3"
        by (simp add: time_ok(4))
      then show ?thesis by (simp add: final_state_simps c3)
    next
      case True
      with Inr have "download_scene env ar i s =
          Process_Downloaded_Imgs env (crsTransform_of ar) (download_path_of env ar d) s3"
        by (simp add: time_ok(4))
      then show ?thesis
        by (simp add: ratio_requests_Process_Downloaded_Imgs c3)
    qed
  qed
qed

lemma ratio_requests_candidate_step:
  "ratio_requests (calls (final_state (candidate_step env ar i s))) =
     ratio_requests (calls s) @ [coverage_ratio ar i]"
proof (cases rule: candidate_step_cases [of env ar i s])
  case (ratio_fails x)
  then show ?thesis
    by (simp add: final_state_simps calls_logged ratio_requests_append)
next
  case (rejected ratio)
  then show ?thesis
    by (simp add: final_state_simps calls_logged calls_print ratio_requests_append)
next
  case (accepted ratio)
  show ?thesis
    unfolding accepted(3) ratio_requests_download_scene
    by (simp add: calls_logged calls_print ratio_requests_append)
qed

lemma ratio_requests_run_candidates:
  "set (ratio_requests (calls (final_state (run_candidates env ar idxs s)))) \<subseteq>
     set (ratio_requests (calls s)) \<union> coverage_ratio ar ` set idxs"
proof (induction idxs arbitrary: s)
  case Nil
  then show ?case by (simp add: final_state_simps)
next
  case (Cons i rest)
  show ?case
  proof (cases "candidate_step env ar i s")
    case (Inl x)
    then have "final_state (run_candidates env ar (i # rest) s) = final_state (candidate_step env ar i s)"
      by simp
    then show ?thesis
      by (simp add: ratio_requests_candidate_step) blast
  next
    case (Inr s')
    then have fs: "final_state (run_candidates env ar (i # rest) s) =
        final_state (run_candidates env ar rest s')"
      by simp
    from Inr have "ratio_requests (calls s') = ratio_requests (calls s) @ [coverage_ratio ar i]"
      using ratio_requests_candidate_step [of env ar i s] by (simp add: final_state_simps)
    with Cons.IH [of s'] show ?thesis
      unfolding fs by auto
  qed
qed

lemma coverage_ratio_inj: "coverage_ratio ar i = coverage_ratio ar j \<longleftrightarrow> i = j"
  by (simp add: coverage_ratio_def valid_pixels_num_def total_pixels_num_def selected_img_def)

lemma run_candidates_append:
  "run_candidates env ar (pre @ rest) s =
     (case run_candidates env ar pre s of
        Inl x \<Rightarrow> Inl x
      | Inr s' \<Rightarrow> run_candidates env ar rest s')"
  by (induction pre arbitrary: s) (simp_all split: sum.splits)





lemma demo_run_strict_returns:
  "\<not> isl (Sentinel2_TOA_Download demo_env (demo_args\<lparr>coverage_ratio_threshold := 1\<rparr>) Map.empty)"
  unfolding demo_env_def by (simp add: run_eval)


lemma downloads_candidate_step_sound:
  "set (downloads (calls (final_state (candidate_step env ar i s)))) \<subseteq>
     set (downloads (calls s))
     \<union> {r. \<exists>ratio d. getInfo_ratio env (coverage_ratio ar i) = Inr ratio
              \<and> coverage_ratio_threshold ar \<le> ratio \<and> r = scene_request env ar i d}"
proof (cases rule: candidate_step_cases [of env ar i s])
  case (ratio_fails x)
  then show ?thesis
    by (simp add: final_state_simps calls_logged downloads_append)
next
  case (rejected ratio)
  then show ?thesis
    by (simp add: final_state_simps calls_logged calls_print downloads_append)
next
  case (accepted ratio)
  let ?s2 = "print (PrintCoverage (i + 1) ratio) (logged (GetInfo_ratio (coverage_ratio ar i)) s)"
  obtain cs where cs: "calls (final_state (download_scene env ar i ?s2)) = calls ?s2 @ cs
        \<and> (downloads cs = [] \<or> (\<exists>d. downloads cs = [scene_request env ar i d]))
        \<and> reference_bands cs = []
        \<and> (\<not> is_postprocess ar \<longrightarrow> filter is_rio_call cs = [])"
    using calls_download_scene [of env ar i ?s2] by (rule exE)
  then have c: "calls (final_state (download_scene env ar i ?s2)) = calls ?s2 @ cs"
    and d: "downloads cs = [] \<or> (\<exists>d. downloads cs = [scene_request env ar i d])"
    by simp_all
  have "downloads (calls (final_state (candidate_step env ar i s))) = downloads (calls s) @ downloads cs"
    unfolding accepted(3) c by (simp add: calls_print calls_logged downloads_append)
  moreover have "set (downloads cs) \<subseteq>
      {r. \<exists>ratio d. getInfo_ratio env (coverage_ratio ar i) = Inr ratio
              \<and> coverage_ratio_threshold ar \<le> ratio \<and> r = scene_request env ar i d}"
    using d accepted(1,2) by auto
  ultimately show ?thesis by auto
qed

lemma downloads_run_candidates_sound:
  "set (downloads (calls (final_state (run_candidates env ar idxs s)))) \<subseteq>
     set (downloads (calls s))
     \<union> {r. \<exists>i \<in> set idxs. \<exists>ratio d. getInfo_ratio env (coverage_ratio ar i) = Inr ratio
              \<and> coverage_ratio_threshold ar \<le> ratio \<and> r = scene_request env ar i d}"
proof (induction idxs arbitrary: s)
  case Nil
  then show ?case by (simp add: final_state_simps)
next
  case (Cons i rest)
  note step = downloads_candidate_step_sound [of env ar i s]
  show ?case
  proof (cases "candidate_step env ar i s")
    case (Inl x)
    then have "final_state (run_candidates env ar (i # rest) s) = final_state (candidate_step env ar i s)"
      by simp
    with step show ?thesis by auto
  next
    case (Inr s')
    then have fs: "final_state (run_candidates env ar (i # rest) s) =
        final_state (run_candidates env ar rest s')"
      by simp
    from Inr step have "set (downloads (calls s')) \<subseteq> set (downloads (calls s))
     \<union> {r. \<exists>ratio d. getInfo_ratio env (coverage_ratio ar i) = Inr ratio
              \<and> coverage_ratio_threshold ar \<le> ratio \<and> r = scene_request env ar i d}"
      by (simp add: final_state_simps)
    with Cons.IH [of s'] show ?thesis
      unfolding fs by auto
  qed
qed

lemma downloads_Sentinel2_TOA_Download_sound:
  assumes "r \<in> set (downloads (calls (final_state (Sentinel2_TOA_Download env ar w))))"
  shows "\<exists>i ratio d. getInfo_ratio env (coverage_ratio ar i) = Inr ratio
              \<and> coverage_ratio_threshold ar \<le> ratio \<and> r = scene_request env ar i d"
proof (cases "getInfo_size env (Collection_size (sentinel2_toa_dataset ar))")
  case (Inl x)
  then have "calls (final_state (Sentinel2_TOA_Download env ar w)) =
      [GetInfo_size (Collection_size (sentinel2_toa_dataset ar))]"
    by (simp add: Sentinel2_TOA_Download_def call_getInfo_size_def final_state_simps logged_def)
  with assms show ?thesis by simp
next
  case (Inr n)
  let ?s1 = "print (PrintTotal n)
      (logged (GetInfo_size (Collection_size (sentinel2_toa_dataset ar)))
         \<lparr>world = w, stdout = [], calls = []\<rparr>)"
  have eq: "Sentinel2_TOA_Download env ar w = run_candidates env ar [0..<n] ?s1"
    using Inr by (simp add: Sentinel2_TOA_Download_def call_getInfo_size_def)
  have e: "downloads (calls ?s1) = []"
    by (simp add: calls_print calls_logged)
  have sub: "set (downloads (calls (final_state (run_candidates env ar [0..<n] ?s1)))) \<subseteq>
     {r. \<exists>i \<in> set [0..<n]. \<exists>ratio d. getInfo_ratio env (coverage_ratio ar i) = Inr ratio
              \<and> coverage_ratio_threshold ar \<le> ratio \<and> r = scene_request env ar i d}"
    using downloads_run_candidates_sound [of env ar "[0..<n]" ?s1] unfolding e by simp
  from assms have "r \<in> set (downloads (calls (final_state (run_candidates env ar [0..<n] ?s1))))"
    unfolding eq .
  with sub have "r \<in> {r. \<exists>i \<in> set [0..<n]. \<exists>ratio d. getInfo_ratio env (coverage_ratio ar i) = Inr ratio
              \<and> coverage_ratio_threshold ar \<le> ratio \<and> r = scene_request env ar i d}"
    by (rule subsetD)
  then show ?thesis
    by blast
qed

subsection \<open>The requests of a run, whether it returns or raises\<close>


















subsection \<open>What a download asks for\<close>

text \<open>
  Every download asks for the clipped scene divided by 10000 (line 132), over the
  rectangle, in EPSG:4326, resampled bilinearly. The values that the exported file then
  holds, and the type they are stored in, are computed by the server and are not modelled;
  the post-processing keeps the data type of the file it reads.
\<close>

lemma export_request_of_accepted_scene:
  assumes "r \<in> set (downloads (calls (final_state (Sentinel2_TOA_Download env ar w))))"
  shows "(\<exists>i. image r = Image_divide (selected_img ar i) 10000)
         \<and> resampling r = ''bilinear'' \<and> req_crs r = ''EPSG:4326''
         \<and> region r = rect_polygon ar"
proof -
  from downloads_Sentinel2_TOA_Download [OF assms] obtain i d where "r = scene_request env ar i d"
    by blast
  then have "image r = Image_divide (selected_img ar i) 10000"
    and "resampling r = ''bilinear''" and "req_crs r = ''EPSG:4326''" and "region r = rect_polygon ar"
    by (simp_all add: scene_request_def)
  then show ?thesis
    by blast
qed

lemma dtype_kept_by_post_processing:
  "p_dtype (make_profile t (crop_border src)) = dtype src"
  "dtype (crop_border src) = dtype src"
  by (simp_all add: make_profile_def dtype_crop_border split: prod.splits)

section \<open>The claims\<close>

text \<open>
  C7. For every input buffer of shape \<open>(b, h, w)\<close> with \<open>h \<ge> 3\<close> and \<open>w \<ge> 3\<close>, the
  post-processing removes exactly one row and one column from each of the four edges of
  every band plane and yields a buffer of shape \<open>(b, h - 2, w - 2)\<close>: when the file read
  gives the array \<open>src\<close>, the function hands the writer the array \<open>crop_border src\<close> and a
  profile of \<open>b\<close> bands, \<open>h - 2\<close> rows and \<open>w - 2\<close> columns, and pixel \<open>(i, j)\<close> of each plane
  of it is pixel \<open>(i + 1, j + 1)\<close> of the plane read.
\<close>

theorem Process_Downloaded_Imgs_crops_border:
  assumes "wf_ndarray src" and "shape src = (b, h, w)" and "3 \<le> h" and "3 \<le> w"
    and "rio_read env download_path (world s) = Inr src"
  shows "Process_Downloaded_Imgs env t download_path s =
           call_rio_write env download_path (make_profile t (crop_border src)) (crop_border src)
             (logged (Rio_read download_path) s)
         \<and> wf_ndarray (crop_border src)
         \<and> shape (crop_border src) = (b, h - 2, w - 2)
         \<and> count (make_profile t (crop_border src)) = b
         \<and> height (make_profile t (crop_border src)) = h - 2
         \<and> width (make_profile t (crop_border src)) = w - 2
         \<and> (\<forall>k < b. \<forall>i < h - 2. \<forall>j < w - 2.
               px (crop_border src) ! k ! i ! j = px src ! k ! (i + 1) ! (j + 1))"
proof -
  have sh: "shape (crop_border src) = (b, h - 2, w - 2)"
    by (rule shape_crop_border [OF assms(2)])
  have "Process_Downloaded_Imgs env t download_path s =
           call_rio_write env download_path (make_profile t (crop_border src)) (crop_border src)
             (logged (Rio_read download_path) s)"
    by (rule Process_Downloaded_Imgs_read_ok [OF assms(5)])
  moreover have "wf_ndarray (crop_border src)"
    by (rule wf_crop_border [OF assms(1)])
  moreover have "\<forall>k < b. \<forall>i < h - 2. \<forall>j < w - 2.
               px (crop_border src) ! k ! i ! j = px src ! k ! (i + 1) ! (j + 1)"
    using nth_crop_border [OF assms(1,2)] by blast
  ultimately show ?thesis
    using sh make_profile_fields(1-3) [OF sh] by simp
qed

theorem Process_Downloaded_Imgs_crops_border_witness:
  "wf_ndarray demo_dn \<and> shape demo_dn = (1, 3, 3) \<and> (3::nat) \<le> 3
   \<and> rio_read demo_env ''a.tif'' (world demo_state) = Inr demo_dn
   \<and> Process_Downloaded_Imgs demo_env demo_transform ''a.tif'' demo_state =
       call_rio_write demo_env ''a.tif'' (make_profile demo_transform (crop_border demo_dn))
         (crop_border demo_dn) (logged (Rio_read ''a.tif'') demo_state)
   \<and> shape (crop_border demo_dn) = (1, 1, 1)
   \<and> height (make_profile demo_transform (crop_border demo_dn)) = 1
   \<and> width (make_profile demo_transform (crop_border demo_dn)) = 1
   \<and> px (crop_border demo_dn) ! 0 ! 0 ! 0 = px demo_dn ! 0 ! 1 ! 1
   \<and> px (crop_border demo_dn) = [[[20000]]]"
proof -
  have h1: "wf_ndarray demo_dn" by (rule wf_demo_dn)
  have h2: "shape demo_dn = (1, 3, 3)" by (simp add: demo_dn_def)
  have h3: "(3::nat) \<le> 3" by simp
  note h5 = read_demo
  show ?thesis
    using Process_Downloaded_Imgs_crops_border [OF h1 h2 h3 h3 h5, of demo_transform] h1 h2 h5
    by (simp add: crop_demo_dn)
qed

text \<open>
  C2, as the specification states it: for every input buffer whose height or width is less
  than 3, the post-processing fails with a \<open>BufferTooSmall\<close> error, checked before any
  work is done, and does not silently produce output.

  The script has no such check. On the 2 by 2 raster \<open>s.tif\<close> it reads the file, takes the
  slice (which is empty), and calls the writer with a profile of 0 rows and 0 columns. With
  a writer that refuses an empty raster the run ends in the writer's exception, after the
  read and the write attempt; with a writer that stores what it is given, the file is
  replaced by an empty raster and the function returns.
\<close>

theorem small_buffer_counterexample:
  "shape demo_small = (1, 2, 2)
   \<and> isl (Process_Downloaded_Imgs demo_env demo_transform ''s.tif'' demo_state)
   \<and> fst (projl (Process_Downloaded_Imgs demo_env demo_transform ''s.tif'' demo_state))
       = Raised RasterioIOError
   \<and> fst (projl (Process_Downloaded_Imgs demo_env demo_transform ''s.tif'' demo_state))
       \<noteq> BufferTooSmall
   \<and> calls (final_state (Process_Downloaded_Imgs demo_env demo_transform ''s.tif'' demo_state))
       = [Rio_read ''s.tif'',
          Rio_write ''s.tif'' (make_profile demo_transform (crop_border demo_small))
            (crop_border demo_small)]
   \<and> shape (crop_border demo_small) = (1, 0, 0)
   \<and> \<not> isl (Process_Downloaded_Imgs (demo_env\<lparr>rio_write := store_any\<rparr>) demo_transform
              ''s.tif'' demo_state)
   \<and> map_option (shape \<circ> snd)
        (world (final_state (Process_Downloaded_Imgs (demo_env\<lparr>rio_write := store_any\<rparr>)
           demo_transform ''s.tif'' demo_state)) ''s.tif'') = Some (1, 0, 0)"
proof -
  have r: "rio_read (demo_env\<lparr>rio_write := store_any\<rparr>) ''s.tif'' (world demo_state) = Inr demo_small"
    using read_small by (simp add: demo_env_def test_env_def)
  have w: "rio_write demo_env = disk_write"
    by (simp add: demo_env_def test_env_def)
  have p: "width (make_profile demo_transform (crop_border demo_small)) = 0"
    by (simp add: crop_demo_small make_profile_def)
  have 1: "Process_Downloaded_Imgs demo_env demo_transform ''s.tif'' demo_state =
      Inl (Raised RasterioIOError,
           (logged (Rio_write ''s.tif'' (make_profile demo_transform (crop_border demo_small))
              (crop_border demo_small)) (logged (Rio_read ''s.tif'') demo_state))
           \<lparr>world := demo_disk\<rparr>)"
    unfolding Process_Downloaded_Imgs_read_ok [OF read_small]
    by (simp add: call_rio_write_def w disk_write_def p logged_def demo_state_def)
  have 2: "Process_Downloaded_Imgs (demo_env\<lparr>rio_write := store_any\<rparr>) demo_transform ''s.tif'' demo_state =
      Inr ((logged (Rio_write ''s.tif'' (make_profile demo_transform (crop_border demo_small))
              (crop_border demo_small)) (logged (Rio_read ''s.tif'') demo_state))
           \<lparr>world := demo_disk(''s.tif'' \<mapsto> (make_profile demo_transform (crop_border demo_small),
               crop_border demo_small))\<rparr>)"
    unfolding Process_Downloaded_Imgs_read_ok [OF r]
    by (simp add: call_rio_write_def store_any_def logged_def demo_state_def)
  have 3: "shape demo_small = (1, 2, 2)"
    by (simp add: demo_small_def)
  show ?thesis
    unfolding 1 2
    by (simp add: 3 final_state_simps logged_def demo_state_def crop_demo_small)
qed

text \<open>
  C2, amended: the post-processing has no size check. For every buffer of shape
  \<open>(b, h, w)\<close> with \<open>h < 3\<close> or \<open>w < 3\<close> that the read returns, the function calls the
  writer with the empty interior of shape \<open>(b, h - 2, w - 2)\<close> (the subtraction stops at 0)
  and a profile of 0 rows or 0 columns; the outcome is the outcome of that write, and it is
  never \<open>BufferTooSmall\<close>.
\<close>

theorem Process_Downloaded_Imgs_no_size_check:
  assumes "shape src = (b, h, w)" and "h < 3 \<or> w < 3"
    and "rio_read env download_path (world s) = Inr src"
  shows "Process_Downloaded_Imgs env t download_path s =
           call_rio_write env download_path (make_profile t (crop_border src)) (crop_border src)
             (logged (Rio_read download_path) s)
         \<and> shape (crop_border src) = (b, h - 2, w - 2)
         \<and> (height (make_profile t (crop_border src)) = 0
              \<or> width (make_profile t (crop_border src)) = 0)
         \<and> (\<forall>s'. Process_Downloaded_Imgs env t download_path s \<noteq> Inl (BufferTooSmall, s'))"
proof -
  have sh: "shape (crop_border src) = (b, h - 2, w - 2)"
    by (rule shape_crop_border [OF assms(1)])
  have "h - 2 = 0 \<or> w - 2 = 0"
    using assms(2) by auto
  then have "height (make_profile t (crop_border src)) = 0
              \<or> width (make_profile t (crop_border src)) = 0"
    by (simp add: make_profile_fields [OF sh])
  then show ?thesis
    using sh Process_Downloaded_Imgs_read_ok [OF assms(3), of t]
      Process_Downloaded_Imgs_not_BufferTooSmall [of env t download_path s]
    by simp
qed

theorem Process_Downloaded_Imgs_no_size_check_witness:
  "shape demo_small = (1, 2, 2) \<and> ((2::nat) < 3 \<or> (2::nat) < 3)
   \<and> rio_read demo_env ''s.tif'' (world demo_state) = Inr demo_small
   \<and> Process_Downloaded_Imgs demo_env demo_transform ''s.tif'' demo_state =
       call_rio_write demo_env ''s.tif'' (make_profile demo_transform (crop_border demo_small))
         (crop_border demo_small) (logged (Rio_read ''s.tif'') demo_state)
   \<and> shape (crop_border demo_small) = (1, 0, 0)
   \<and> (\<forall>s'. Process_Downloaded_Imgs demo_env demo_transform ''s.tif'' demo_state
          \<noteq> Inl (BufferTooSmall, s'))"
proof -
  have h1: "shape demo_small = (1, 2, 2)" by (simp add: demo_small_def)
  have h2: "(2::nat) < 3 \<or> (2::nat) < 3" by simp
  note h3 = read_small
  show ?thesis
    using Process_Downloaded_Imgs_no_size_check [OF h1 h2 h3, of demo_transform] h1 h2 h3
      crop_demo_small
    by (metis ndarray.select_convs(1))
qed

text \<open>
  C1. The specification requires that, for every raster buffer and transform
  \<open>T = (sx, 0, ox, 0, sy, oy)\<close>, the transform written with the cropped buffer has its
  origin recomputed to \<open>(ox + sx, oy + sy)\<close>, so that pixel \<open>(0, 0)\<close> of the cropped buffer
  is mapped by the written transform to where \<open>T\<close> maps pixel \<open>(1, 1)\<close> of the original.

  The script does not do this: it crops the array and writes the tuple it was given, the
  one it also passed to the download as the grid of the uncropped raster and whose third and
  sixth entries its comment (lines 136 and 137) calls the longitude and latitude of the
  top-left corner. For the 3 by 3 raster \<open>a.tif\<close> and \<open>T = (1/2, 0, 1, 0, -1/2, 4)\<close> the
  written origin is \<open>(1, 4)\<close>, not \<open>(3/2, 7/2)\<close>: pixel \<open>(0, 0)\<close> of the written raster, which
  holds the value of pixel \<open>(1, 1)\<close> of the original, is mapped to \<open>(1, 4)\<close>, while \<open>T\<close> maps
  pixel \<open>(1, 1)\<close> to \<open>(3/2, 7/2)\<close>. The written raster is displaced by one pixel.
\<close>

theorem written_origin_not_recomputed:
  "affine_apply (transform (fst (the (world (final_state
       (Process_Downloaded_Imgs demo_env demo_transform ''a.tif'' demo_state)) ''a.tif'')))) (0, 0)
     = (1, 4)
   \<and> affine_apply (Affine demo_transform) (1, 1) = (3 / 2, 7 / 2)
   \<and> affine_apply (transform (fst (the (world (final_state
       (Process_Downloaded_Imgs demo_env demo_transform ''a.tif'' demo_state)) ''a.tif'')))) (0, 0)
     \<noteq> affine_apply (Affine demo_transform) (1, 1)
   \<and> (af_c (transform (fst (the (world (final_state
          (Process_Downloaded_Imgs demo_env demo_transform ''a.tif'' demo_state)) ''a.tif'')))),
       af_f (transform (fst (the (world (final_state
          (Process_Downloaded_Imgs demo_env demo_transform ''a.tif'' demo_state)) ''a.tif'')))))
     = (1, 4)
   \<and> demo_transform = (1 / 2, 0, 1, 0, - (1 / 2), 4)
   \<and> (1 + 1 / 2, 4 + - (1 / 2)) \<noteq> ((1::rat), (4::rat))
   \<and> px (snd (the (world (final_state
          (Process_Downloaded_Imgs demo_env demo_transform ''a.tif'' demo_state)) ''a.tif'')))
        ! 0 ! 0 ! 0 = px demo_dn ! 0 ! 1 ! 1"
proof -
  have w: "rio_write demo_env = disk_write"
    by (simp add: demo_env_def test_env_def)
  have p: "width (make_profile demo_transform (crop_border demo_dn)) = 1"
    "height (make_profile demo_transform (crop_border demo_dn)) = 1"
    "count (make_profile demo_transform (crop_border demo_dn)) = 1"
    by (simp_all add: crop_demo_dn make_profile_def)
  have 1: "Process_Downloaded_Imgs demo_env demo_transform ''a.tif'' demo_state =
      Inr ((logged (Rio_write ''a.tif'' (make_profile demo_transform (crop_border demo_dn))
              (crop_border demo_dn)) (logged (Rio_read ''a.tif'') demo_state))
           \<lparr>world := demo_disk(''a.tif'' \<mapsto> (make_profile demo_transform (crop_border demo_dn),
               crop_border demo_dn))\<rparr>)"
    unfolding Process_Downloaded_Imgs_read_ok [OF read_demo]
    by (simp add: call_rio_write_def w disk_write_def p logged_def demo_state_def)
  have 2: "px demo_dn ! 0 ! Suc 0 ! Suc 0 = 20000"
    by (simp add: demo_dn_def)
  show ?thesis
    unfolding 1
    by (simp add: 2 final_state_simps logged_def transform_make_profile crop_demo_dn
        Affine_def affine_apply_def demo_transform_def)
qed

text \<open>
  The same holds for every input: whatever buffer the read returns and whatever the tuple
  \<open>(sx, shx, ox, shy, sy, oy)\<close> is, the transform handed to the writer with the cropped
  buffer is that tuple, with the origin \<open>(ox, oy)\<close>.
\<close>

theorem Process_Downloaded_Imgs_writes_given_transform:
  assumes "rio_read env download_path (world s) = Inr src"
  shows "Process_Downloaded_Imgs env (sx, shx, ox, shy, sy, oy) download_path s =
           call_rio_write env download_path
             (make_profile (sx, shx, ox, shy, sy, oy) (crop_border src)) (crop_border src)
             (logged (Rio_read download_path) s)
         \<and> transform (make_profile (sx, shx, ox, shy, sy, oy) (crop_border src))
             = Affine (sx, shx, ox, shy, sy, oy)
         \<and> af_c (transform (make_profile (sx, shx, ox, shy, sy, oy) (crop_border src))) = ox
         \<and> af_f (transform (make_profile (sx, shx, ox, shy, sy, oy) (crop_border src))) = oy
         \<and> affine_apply (transform (make_profile (sx, shx, ox, shy, sy, oy) (crop_border src))) (0, 0)
             = (ox, oy)
         \<and> affine_apply (transform (make_profile (sx, shx, ox, shy, sy, oy) (crop_border src))) (0, 0)
             = affine_apply (Affine (sx, shx, ox, shy, sy, oy)) (0, 0)"
  using Process_Downloaded_Imgs_read_ok [OF assms, of "(sx, shx, ox, shy, sy, oy)"]
  by (simp add: transform_make_profile Affine_def affine_apply_def)

theorem Process_Downloaded_Imgs_writes_given_transform_witness:
  "rio_read demo_env ''a.tif'' (world demo_state) = Inr demo_dn
   \<and> Process_Downloaded_Imgs demo_env (1 / 2, 0, 1, 0, - (1 / 2), 4) ''a.tif'' demo_state =
       call_rio_write demo_env ''a.tif''
         (make_profile (1 / 2, 0, 1, 0, - (1 / 2), 4) (crop_border demo_dn)) (crop_border demo_dn)
         (logged (Rio_read ''a.tif'') demo_state)
   \<and> affine_apply (transform (make_profile (1 / 2, 0, 1, 0, - (1 / 2), 4) (crop_border demo_dn))) (0, 0)
       = (1, 4)"
  using Process_Downloaded_Imgs_writes_given_transform [OF read_demo, of "1 / 2" 0 1 0 "- (1 / 2)" 4]
    read_demo
  by blast

text \<open>
  C6. For every accepted scene in a run with AOI corner \<open>(lon_min, lat_max)\<close> and
  resolution \<open>r\<close>, the export transform equals \<open>(r, 0, lon_min, 0, -r, lat_max)\<close>: every
  download request that a run makes, whether the run returns or raises, carries this
  transform, so all accepted scenes of a run receive the same one.
\<close>

theorem export_transform_anchored_at_aoi:
  "\<forall>r \<in> set (downloads (calls (final_state (Sentinel2_TOA_Download env ar w)))).
     crs_transform r =
       (resample_resolution ar, 0, lon_min ar, 0, - resample_resolution ar, lat_max ar)"
proof
  fix r
  assume "r \<in> set (downloads (calls (final_state (Sentinel2_TOA_Download env ar w))))"
  from downloads_Sentinel2_TOA_Download [OF this] obtain i d where "r = scene_request env ar i d"
    by blast
  then show "crs_transform r =
       (resample_resolution ar, 0, lon_min ar, 0, - resample_resolution ar, lat_max ar)"
    by (simp add: scene_request_def crsTransform_of_def)
qed

theorem export_transform_anchored_at_aoi_witness:
  "scene_request demo_env demo_args 1 ''1970-01-01 00:00:02''
     \<in> set (downloads (calls (final_state (Sentinel2_TOA_Download demo_env demo_args Map.empty))))
   \<and> crs_transform (scene_request demo_env demo_args 1 ''1970-01-01 00:00:02'')
       = (1 / 2, 0, 1, 0, - (1 / 2), 4)
   \<and> map crs_transform
         (downloads (calls (final_state (Sentinel2_TOA_Download demo_env demo_args Map.empty))))
       = [(1 / 2, 0, 1, 0, - (1 / 2), 4), (1 / 2, 0, 1, 0, - (1 / 2), 4)]"
proof -
  have m: "scene_request demo_env demo_args 1 ''1970-01-01 00:00:02''
     \<in> set (downloads (calls (final_state (Sentinel2_TOA_Download demo_env demo_args Map.empty))))"
    by (simp add: demo_run_downloads)
  from export_transform_anchored_at_aoi [of demo_env demo_args Map.empty, THEN bspec, OF m]
  show ?thesis
    using m by (simp add: demo_run_downloads demo_args_fields scene_request_fields crsTransform_of_def)
qed

text \<open>
  C3, as the specification states it: for every candidate scene and every ordered band list
  \<open>bands\<close>, the coverage evaluation uses the first entry of \<open>bands\<close> as the reference band
  (with \<open>bands = ['B3', 'B4']\<close> the reference band is \<open>'B3'\<close>).

  The script selects and counts the band \<open>'B2'\<close> whatever \<open>bands\<close> is (lines 109 to 113).
  With \<open>bands = ['B3', 'B4']\<close> the ratio it asks the server for is a count of \<open>'B2'\<close>; the
  test server, whose images then have no such band, refuses the first request and the run
  ends there.
\<close>

theorem reference_band_counterexample:
  "bands (demo_args\<lparr>bands := [''B3'', ''B4'']\<rparr>) = [''B3'', ''B4'']
   \<and> reference_band (coverage_ratio (demo_args\<lparr>bands := [''B3'', ''B4'']\<rparr>) 0) = Some ''B2''
   \<and> calls (final_state
        (Sentinel2_TOA_Download demo_env (demo_args\<lparr>bands := [''B3'', ''B4'']\<rparr>) Map.empty))
       = [GetInfo_size (Collection_size (sentinel2_toa_dataset (demo_args\<lparr>bands := [''B3'', ''B4'']\<rparr>))),
          GetInfo_ratio (coverage_ratio (demo_args\<lparr>bands := [''B3'', ''B4'']\<rparr>) 0)]
   \<and> reference_bands (calls (final_state
        (Sentinel2_TOA_Download demo_env (demo_args\<lparr>bands := [''B3'', ''B4'']\<rparr>) Map.empty)))
       = [Some ''B2'']
   \<and> Some ''B2'' \<noteq> Some (hd (bands (demo_args\<lparr>bands := [''B3'', ''B4'']\<rparr>)))"
  unfolding demo_env_def by (simp add: run_eval reference_band_coverage_ratio)

text \<open>
  C3, amended: for every candidate scene and every band list, the coverage evaluation uses
  the fixed band \<open>'B2'\<close> as the reference band for counting valid pixels; \<open>'B2'\<close> is the
  first entry of the default band list.
\<close>

theorem reference_band_is_B2:
  "(\<forall>band \<in> set (reference_bands (calls (final_state (Sentinel2_TOA_Download env ar w)))).
      band = Some ''B2'')
   \<and> hd (bands (default_args lo_min lo_max la_min la_max start end' folder)) = ''B2''"
proof -
  obtain cs where cs: "calls (final_state (Sentinel2_TOA_Download env ar w)) =
          GetInfo_size (Collection_size (sentinel2_toa_dataset ar)) # cs
        \<and> (\<forall>r \<in> set (downloads cs). \<exists>i d. r = scene_request env ar i d)
        \<and> set (reference_bands cs) \<subseteq> {Some ''B2''}
        \<and> (\<not> is_postprocess ar \<longrightarrow> filter is_rio_call cs = [])"
    using calls_Sentinel2_TOA_Download [of env ar w] by (rule exE)
  then have "set (reference_bands (calls (final_state (Sentinel2_TOA_Download env ar w))))
      \<subseteq> {Some ''B2''}"
    by simp
  then show ?thesis
    by (auto simp: default_args_def)
qed

theorem reference_band_is_B2_witness:
  "Some ''B2'' \<in> set (reference_bands
      (calls (final_state (Sentinel2_TOA_Download demo_env demo_args Map.empty))))
   \<and> reference_bands (calls (final_state (Sentinel2_TOA_Download demo_env demo_args Map.empty)))
       = [Some ''B2'', Some ''B2'', Some ''B2'']
   \<and> hd (bands (default_args 1 2 3 4 ''2025-08-01'' ''2025-08-07'' ''out'')) = ''B2''"
  using reference_band_is_B2 [of demo_env demo_args Map.empty 1 2 3 4 "''2025-08-01''"
      "''2025-08-07''" "''out''"]
  by (simp add: demo_run_reference_bands)

text \<open>
  C10. Post-processing is optional at the public interface: it is controlled by the boolean
  parameter \<open>is_postprocess\<close>, whose default is \<open>True\<close>; when it is \<open>False\<close>, a run makes no
  call to the raster library at all (no read, so no crop, and no write), and its outcome,
  files included, is the same whatever the raster library would do: every downloaded file
  is left as the export wrote it.
\<close>

theorem postprocess_is_optional:
  "is_postprocess (default_args lo_min lo_max la_min la_max start end' folder)
   \<and> (\<not> is_postprocess ar \<longrightarrow>
        filter is_rio_call (calls (final_state (Sentinel2_TOA_Download env ar w))) = []
        \<and> Sentinel2_TOA_Download (env\<lparr>rio_read := rr, rio_write := rw\<rparr>) ar w =
            Sentinel2_TOA_Download env ar w)"
  by (simp add: default_args_def rio_calls_Sentinel2_TOA_Download
      Sentinel2_TOA_Download_without_postprocess)

theorem postprocess_is_optional_witness:
  "is_postprocess (default_args 1 2 3 4 ''2025-08-01'' ''2025-08-07'' ''out'')
   \<and> \<not> is_postprocess (demo_args\<lparr>is_postprocess := False\<rparr>)
   \<and> filter is_rio_call (calls (final_state
        (Sentinel2_TOA_Download demo_env (demo_args\<lparr>is_postprocess := False\<rparr>) Map.empty))) = []
   \<and> Sentinel2_TOA_Download (demo_env\<lparr>rio_read := disk_read, rio_write := store_any\<rparr>)
        (demo_args\<lparr>is_postprocess := False\<rparr>) Map.empty =
      Sentinel2_TOA_Download demo_env (demo_args\<lparr>is_postprocess := False\<rparr>) Map.empty
   \<and> map_option (shape \<circ> snd)
        (world (final_state
           (Sentinel2_TOA_Download demo_env (demo_args\<lparr>is_postprocess := False\<rparr>) Map.empty))
           (download_path_of demo_env demo_args ''1970-01-01 00:00:03'')) = Some (1, 3, 3)
   \<and> map_option (shape \<circ> snd)
        (world (final_state (Sentinel2_TOA_Download demo_env demo_args Map.empty))
           (download_path_of demo_env demo_args ''1970-01-01 00:00:03'')) = Some (1, 1, 1)"
proof -
  have h: "\<not> is_postprocess (demo_args\<lparr>is_postprocess := False\<rparr>)" by simp
  have 1: "map_option (shape \<circ> snd)
        (world (final_state (Sentinel2_TOA_Download demo_env demo_args Map.empty))
           (download_path_of demo_env demo_args ''1970-01-01 00:00:03'')) = Some (1, 1, 1)"
    unfolding demo_env_def by (simp add: run_eval demo_paths_distinct shape_crop_demo_dn)
  show ?thesis
    using postprocess_is_optional [where lo_min = 1 and lo_max = 2 and la_min = 3 and la_max = 4
        and start = "''2025-08-01''" and end' = "''2025-08-07''" and folder = "''out''"
        and ar = "demo_args\<lparr>is_postprocess := False\<rparr>" and env = demo_env
        and w = Map.empty and rr = disk_read and rw = store_any] h 1
    by (simp add: demo_run_no_postprocess_world demo_dn_def)
qed

text \<open>
  C5, as the specification states it: a failure while evaluating or exporting one candidate
  does not abort the enumeration; all subsequent candidates are still evaluated, and the
  failure is reported for that candidate only.

  The script has no exception handler. With a server of three scenes whose second ratio
  request fails, the run raises that exception: the third scene, whose ratio 1 reaches the
  threshold, is never asked for and nothing is downloaded.
\<close>

theorem failure_aborts_counterexample:
  "isl (Sentinel2_TOA_Download demo_env_failing demo_args Map.empty)
   \<and> fst (projl (Sentinel2_TOA_Download demo_env_failing demo_args Map.empty)) = Raised EEException
   \<and> calls (final_state (Sentinel2_TOA_Download demo_env_failing demo_args Map.empty)) =
       [GetInfo_size (Collection_size (sentinel2_toa_dataset demo_args)),
        GetInfo_ratio (coverage_ratio demo_args 0),
        GetInfo_ratio (coverage_ratio demo_args 1)]
   \<and> stdout (final_state (Sentinel2_TOA_Download demo_env_failing demo_args Map.empty)) =
       [PrintTotal 3, PrintCoverage 1 (1 / 2)]
   \<and> getInfo_ratio demo_env_failing (coverage_ratio demo_args 2) = Inr 1
   \<and> coverage_ratio_threshold demo_args \<le> 1
   \<and> GetInfo_ratio (coverage_ratio demo_args 2)
       \<notin> set (calls (final_state (Sentinel2_TOA_Download demo_env_failing demo_args Map.empty)))
   \<and> downloads (calls (final_state (Sentinel2_TOA_Download demo_env_failing demo_args Map.empty)))
       = []"
  unfolding demo_env_failing_def by (simp add: run_eval coverage_ratio_inj)

text \<open>
  C5, amended: a failure while evaluating or exporting one candidate propagates out of
  \<open>Sentinel2_TOA_Download\<close> at once and ends the enumeration. If the candidates before
  index \<open>i\<close> were processed and the step for candidate \<open>i\<close> raises, the whole run raises the
  same exception in the same state, and no coverage ratio of a later candidate has been
  asked for.
\<close>

theorem failure_aborts_enumeration:
  assumes "getInfo_size env (Collection_size (sentinel2_toa_dataset ar)) = Inr n"
    and "i < n"
    and "run_candidates env ar [0..<i]
           (print (PrintTotal n)
              (logged (GetInfo_size (Collection_size (sentinel2_toa_dataset ar)))
                 \<lparr>world = w, stdout = [], calls = []\<rparr>)) = Inr s1"
    and "candidate_step env ar i s1 = Inl x"
  shows "Sentinel2_TOA_Download env ar w = Inl x
         \<and> (\<forall>j. GetInfo_ratio (coverage_ratio ar j) \<in> set (calls (snd x)) \<longrightarrow> j \<le> i)"
proof -
  let ?s0 = "print (PrintTotal n)
              (logged (GetInfo_size (Collection_size (sentinel2_toa_dataset ar)))
                 \<lparr>world = w, stdout = [], calls = []\<rparr>)"
  have split: "[0..<n] = [0..<i] @ i # [Suc i..<n]"
    using assms(2) by (metis le_add1 less_imp_add_positive upt_add_eq_append upt_conv_Cons zero_le)
  have run: "Sentinel2_TOA_Download env ar w = Inl x"
    using assms(1,3,4)
    by (simp add: Sentinel2_TOA_Download_def call_getInfo_size_def split run_candidates_append)
  have mem: "k \<in> set ks \<Longrightarrow> (case k of GetInfo_ratio n \<Rightarrow> n \<in> set (ratio_requests ks) | _ \<Rightarrow> True)"
    for k ks
    by (induction ks rule: ratio_requests.induct) (auto split: call.splits)
  have r0: "ratio_requests (calls ?s0) = []"
    by (simp add: calls_print calls_logged)
  have "set (ratio_requests (calls (final_state (run_candidates env ar [0..<i] ?s0)))) \<subseteq>
     set (ratio_requests (calls ?s0)) \<union> coverage_ratio ar ` set [0..<i]"
    by (rule ratio_requests_run_candidates)
  then have r1: "set (ratio_requests (calls s1)) \<subseteq> coverage_ratio ar ` {0..<i}"
    unfolding assms(3) r0 by (simp add: final_state_simps)
  have "ratio_requests (calls (final_state (candidate_step env ar i s1))) =
     ratio_requests (calls s1) @ [coverage_ratio ar i]"
    by (rule ratio_requests_candidate_step)
  then have r2: "ratio_requests (calls (snd x)) = ratio_requests (calls s1) @ [coverage_ratio ar i]"
    unfolding assms(4) by (cases x) (simp add: final_state_simps)
  have "j \<le> i" if "GetInfo_ratio (coverage_ratio ar j) \<in> set (calls (snd x))" for j
  proof -
    from mem [OF that] have "coverage_ratio ar j \<in> set (ratio_requests (calls (snd x)))"
      by simp
    then have "coverage_ratio ar j = coverage_ratio ar i \<or> coverage_ratio ar j \<in> coverage_ratio ar ` {0..<i}"
      using r1 unfolding r2 by auto
    then show ?thesis
      by (auto simp: coverage_ratio_inj)
  qed
  with run show ?thesis by blast
qed

theorem failure_aborts_enumeration_witness:
  "getInfo_size demo_env_failing (Collection_size (sentinel2_toa_dataset demo_args)) = Inr 3
   \<and> (1::nat) < 3
   \<and> run_candidates demo_env_failing demo_args [0..<1]
        (print (PrintTotal 3)
           (logged (GetInfo_size (Collection_size (sentinel2_toa_dataset demo_args)))
              \<lparr>world = Map.empty, stdout = [], calls = []\<rparr>))
       = Inr \<lparr>world = Map.empty, stdout = [PrintTotal 3, PrintCoverage 1 (1 / 2)],
              calls = [GetInfo_size (Collection_size (sentinel2_toa_dataset demo_args)),
                       GetInfo_ratio (coverage_ratio demo_args 0)]\<rparr>
   \<and> candidate_step demo_env_failing demo_args 1
        \<lparr>world = Map.empty, stdout = [PrintTotal 3, PrintCoverage 1 (1 / 2)],
         calls = [GetInfo_size (Collection_size (sentinel2_toa_dataset demo_args)),
                  GetInfo_ratio (coverage_ratio demo_args 0)]\<rparr>
       = Inl (Raised EEException,
              \<lparr>world = Map.empty, stdout = [PrintTotal 3, PrintCoverage 1 (1 / 2)],
               calls = [GetInfo_size (Collection_size (sentinel2_toa_dataset demo_args)),
                        GetInfo_ratio (coverage_ratio demo_args 0),
                        GetInfo_ratio (coverage_ratio demo_args 1)]\<rparr>)
   \<and> Sentinel2_TOA_Download demo_env_failing demo_args Map.empty
       = Inl (Raised EEException,
              \<lparr>world = Map.empty, stdout = [PrintTotal 3, PrintCoverage 1 (1 / 2)],
               calls = [GetInfo_size (Collection_size (sentinel2_toa_dataset demo_args)),
                        GetInfo_ratio (coverage_ratio demo_args 0),
                        GetInfo_ratio (coverage_ratio demo_args 1)]\<rparr>)"
proof -
  have h1: "getInfo_size demo_env_failing (Collection_size (sentinel2_toa_dataset demo_args)) = Inr 3"
    by (simp add: demo_env_failing_def test_env_size)
  have h2: "(1::nat) < 3" by simp
  have h3: "run_candidates demo_env_failing demo_args [0..<1]
        (print (PrintTotal 3)
           (logged (GetInfo_size (Collection_size (sentinel2_toa_dataset demo_args)))
              \<lparr>world = Map.empty, stdout = [], calls = []\<rparr>))
       = Inr \<lparr>world = Map.empty, stdout = [PrintTotal 3, PrintCoverage 1 (1 / 2)],
              calls = [GetInfo_size (Collection_size (sentinel2_toa_dataset demo_args)),
                       GetInfo_ratio (coverage_ratio demo_args 0)]\<rparr>"
    unfolding demo_env_failing_def by (simp add: run_eval)
  have h4: "candidate_step demo_env_failing demo_args 1
        \<lparr>world = Map.empty, stdout = [PrintTotal 3, PrintCoverage 1 (1 / 2)],
         calls = [GetInfo_size (Collection_size (sentinel2_toa_dataset demo_args)),
                  GetInfo_ratio (coverage_ratio demo_args 0)]\<rparr>
       = Inl (Raised EEException,
              \<lparr>world = Map.empty, stdout = [PrintTotal 3, PrintCoverage 1 (1 / 2)],
               calls = [GetInfo_size (Collection_size (sentinel2_toa_dataset demo_args)),
                        GetInfo_ratio (coverage_ratio demo_args 0),
                        GetInfo_ratio (coverage_ratio demo_args 1)]\<rparr>)"
    unfolding demo_env_failing_def by (simp add: run_eval)
  from failure_aborts_enumeration [OF h1 h2 h3 h4] h1 h2 h3 h4
  show ?thesis by blast
qed







end
